theory Spec2Isabelle
  imports Main "HOL-Library.AList" "HOL-Library.Word"
begin

section \<open>JavaScript values\<close>

text \<open>
  The values that cross the interfaces of \<^verbatim>\<open>dynamicExecutor_js_v1.js\<close>: tool
  parameters, stored records, results of generated functions. The fragment has the
  primitives, arrays, plain objects (their own properties, in insertion order) and
  callables. Numbers are the 32-bit integers, which print as their decimal numerals; a
  BigInt is the representative of a value that \<^verbatim>\<open>JSON.stringify\<close> refuses.
  Strings are lists of the code units below 256.
\<close>

datatype js_value =
    JUndefined
  | JNull
  | JBool bool
  | JNumber "32 word"
  | JBigInt int
  | JString string
  | JFunction string
  | JArray "js_value list"
  | JObject "(string \<times> js_value) list"

text \<open>A thrown \<^verbatim>\<open>Error\<close> is its \<^verbatim>\<open>message\<close>; \<open>Inl\<close> is a throw.\<close>

type_synonym 'a js_result = "string + 'a"

fun typeof :: "js_value \<Rightarrow> string" where
  "typeof JUndefined = ''undefined''"
| "typeof JNull = ''object''"
| "typeof (JBool b) = ''boolean''"
| "typeof (JNumber n) = ''number''"
| "typeof (JBigInt n) = ''bigint''"
| "typeof (JString s) = ''string''"
| "typeof (JFunction src) = ''function''"
| "typeof (JArray xs) = ''object''"
| "typeof (JObject ps) = ''object''"

text \<open>\<^verbatim>\<open>!v\<close> is \<open>\<not> truthy v\<close>.\<close>

fun truthy :: "js_value \<Rightarrow> bool" where
  "truthy JUndefined = False"
| "truthy JNull = False"
| "truthy (JBool b) = b"
| "truthy (JNumber n) = (n \<noteq> 0)"
| "truthy (JBigInt n) = (n \<noteq> 0)"
| "truthy (JString s) = (s \<noteq> [])"
| "truthy (JFunction src) = True"
| "truthy (JArray xs) = True"
| "truthy (JObject ps) = True"

text \<open>\<^verbatim>\<open>a || b\<close>\<close>

definition js_or :: "js_value \<Rightarrow> js_value \<Rightarrow> js_value" where
  "js_or a b = (if truthy a then a else b)"

fun show_nat :: "nat \<Rightarrow> string" where
  "show_nat n =
     (if n < 10 then [''0123456789'' ! n]
      else show_nat (n div 10) @ [''0123456789'' ! (n mod 10)])"

definition show_int :: "int \<Rightarrow> string" where
  "show_int i = (if i < 0 then ''-'' @ show_nat (nat (- i)) else show_nat (nat i))"

fun intercalate :: "string \<Rightarrow> string list \<Rightarrow> string" where
  "intercalate sep [] = []"
| "intercalate sep [x] = x"
| "intercalate sep (x # y # ys) = x @ sep @ intercalate sep (y # ys)"

text \<open>
  \<^verbatim>\<open>String(v)\<close>, which is also what a template literal \<^verbatim>\<open>${v}\<close> and
  \<^verbatim>\<open>RegExp.prototype.test(v)\<close> apply to \<open>v\<close>.
\<close>

fun js_to_string :: "js_value \<Rightarrow> string"
and js_join_items :: "js_value list \<Rightarrow> string list" where
  "js_to_string JUndefined = ''undefined''"
| "js_to_string JNull = ''null''"
| "js_to_string (JBool b) = (if b then ''true'' else ''false'')"
| "js_to_string (JNumber n) = show_int (sint n)"
| "js_to_string (JBigInt n) = show_int n"
| "js_to_string (JString s) = s"
| "js_to_string (JFunction src) = src"
| "js_to_string (JArray xs) = intercalate '','' (js_join_items xs)"
| "js_to_string (JObject ps) = ''[object Object]''"
| "js_join_items [] = []"
| "js_join_items (x # xs) =
     (if x = JUndefined \<or> x = JNull then [] else js_to_string x) # js_join_items xs"

text \<open>
  \<^verbatim>\<open>v.key\<close> for the property names the program reads: an own property of a plain
  object, \<^verbatim>\<open>undefined\<close> on any other value, a \<^verbatim>\<open>TypeError\<close> on
  \<^verbatim>\<open>undefined\<close> and \<^verbatim>\<open>null\<close>. Built-in members are left out; of the names
  read, only \<^verbatim>\<open>name\<close> is one, on a callable, and no record here is a callable.
\<close>

fun read_prop :: "js_value \<Rightarrow> string \<Rightarrow> js_value" where
  "read_prop (JObject ps) k = (case map_of ps k of None \<Rightarrow> JUndefined | Some v \<Rightarrow> v)"
| "read_prop v k = JUndefined"

definition nullish :: "js_value \<Rightarrow> bool" where
  "nullish v \<longleftrightarrow> v = JUndefined \<or> v = JNull"

definition get_prop :: "js_value \<Rightarrow> string \<Rightarrow> js_value js_result" where
  "get_prop v k =
     (if nullish v then
        Inl (''Cannot read properties of '' @ js_to_string v @ '' (reading '' @ [CHR 0x27] @ k
             @ [CHR 0x27] @ '')'')
      else Inr (read_prop v k))"

text \<open>The own enumerable properties that \<^verbatim>\<open>{...v}\<close> copies.\<close>

fun own_props :: "js_value \<Rightarrow> (string \<times> js_value) list" where
  "own_props (JObject ps) = ps"
| "own_props (JArray xs) = zip (map show_nat [0..<length xs]) xs"
| "own_props (JString s) = zip (map show_nat [0..<length s]) (map (\<lambda>c. JString [c]) s)"
| "own_props v = []"

subsection \<open>\<^verbatim>\<open>JSON.stringify\<close>\<close>

definition hex_digit :: "nat \<Rightarrow> char" where
  "hex_digit n = ''0123456789abcdef'' ! n"

definition json_escape_char :: "char \<Rightarrow> string" where
  \<open>json_escape_char c =
     (if c = CHR 0x22 then [CHR 0x5C, CHR 0x22]
      else if c = CHR 0x5C then [CHR 0x5C, CHR 0x5C]
      else if c = CHR 0x08 then [CHR 0x5C, CHR ''b'']
      else if c = CHR 0x09 then [CHR 0x5C, CHR ''t'']
      else if c = CHR 0x0A then [CHR 0x5C, CHR ''n'']
      else if c = CHR 0x0C then [CHR 0x5C, CHR ''f'']
      else if c = CHR 0x0D then [CHR 0x5C, CHR ''r'']
      else if (of_char c :: nat) < 32
        then [CHR 0x5C, CHR ''u'', CHR ''0'', CHR ''0'',
              hex_digit (of_char c div 16), hex_digit (of_char c mod 16)]
      else [c])\<close>

definition json_quote :: "string \<Rightarrow> string" where
  "json_quote s = [CHR 0x22] @ concat (map json_escape_char s) @ [CHR 0x22]"

text \<open>
  The closing step of \<^verbatim>\<open>SerializeJSONObject\<close> and \<^verbatim>\<open>SerializeJSONArray\<close>:
  \<open>stepback\<close> is the indentation of the enclosing level.
\<close>

definition json_wrap :: "string \<Rightarrow> string \<Rightarrow> string \<Rightarrow> string \<Rightarrow> string list \<Rightarrow> string" where
  "json_wrap opn cls gap stepback parts =
     (if parts = [] then opn @ cls
      else if gap = [] then opn @ intercalate '','' parts @ cls
      else opn @ [CHR 0x0A] @ stepback @ gap
             @ intercalate ('','' @ [CHR 0x0A] @ stepback @ gap) parts
             @ [CHR 0x0A] @ stepback @ cls)"

text \<open>
  \<^verbatim>\<open>SerializeJSONProperty\<close>: \<open>Inr None\<close> is the result \<^verbatim>\<open>undefined\<close>, \<open>Inl\<close> the
  \<^verbatim>\<open>TypeError\<close>. An array holds \<^verbatim>\<open>null\<close> in place of an element without a
  serialization; an object leaves such a property out.
\<close>

fun json_value :: "string \<Rightarrow> string \<Rightarrow> js_value \<Rightarrow> string option js_result"
and json_elems :: "string \<Rightarrow> string \<Rightarrow> js_value list \<Rightarrow> string list js_result"
and json_members :: "string \<Rightarrow> string \<Rightarrow> (string \<times> js_value) list \<Rightarrow> string list js_result"
where
  "json_value gap ind JUndefined = Inr None"
| "json_value gap ind JNull = Inr (Some ''null'')"
| "json_value gap ind (JBool b) = Inr (Some (if b then ''true'' else ''false''))"
| "json_value gap ind (JNumber n) = Inr (Some (show_int (sint n)))"
| "json_value gap ind (JBigInt n) = Inl ''Do not know how to serialize a BigInt''"
| "json_value gap ind (JString s) = Inr (Some (json_quote s))"
| "json_value gap ind (JFunction src) = Inr None"
| "json_value gap ind (JArray xs) =
     (case json_elems gap (ind @ gap) xs of
        Inl e \<Rightarrow> Inl e
      | Inr parts \<Rightarrow> Inr (Some (json_wrap ''['' '']'' gap ind parts)))"
| "json_value gap ind (JObject ps) =
     (case json_members gap (ind @ gap) ps of
        Inl e \<Rightarrow> Inl e
      | Inr parts \<Rightarrow> Inr (Some (json_wrap ''{'' ''}'' gap ind parts)))"
| "json_elems gap ind [] = Inr []"
| "json_elems gap ind (x # xs) =
     (case json_value gap ind x of
        Inl e \<Rightarrow> Inl e
      | Inr s \<Rightarrow>
          (case json_elems gap ind xs of
             Inl e \<Rightarrow> Inl e
           | Inr ss \<Rightarrow> Inr ((case s of None \<Rightarrow> ''null'' | Some t \<Rightarrow> t) # ss)))"
| "json_members gap ind [] = Inr []"
| "json_members gap ind (p # ps) =
     (case json_value gap ind (snd p) of
        Inl e \<Rightarrow> Inl e
      | Inr s \<Rightarrow>
          (case json_members gap ind ps of
             Inl e \<Rightarrow> Inl e
           | Inr ss \<Rightarrow>
               Inr (case s of
                      None \<Rightarrow> ss
                    | Some t \<Rightarrow>
                        (json_quote (fst p) @ '':'' @ (if gap = [] then [] else '' '') @ t) # ss)))"

text \<open>\<^verbatim>\<open>JSON.stringify(v)\<close> and \<^verbatim>\<open>JSON.stringify(v, null, 2)\<close>\<close>

definition JSON_stringify :: "js_value \<Rightarrow> string option js_result" where
  "JSON_stringify v = json_value [] [] v"

definition JSON_stringify_2 :: "js_value \<Rightarrow> string option js_result" where
  "JSON_stringify_2 v = json_value ''  '' [] v"

text \<open>
  A template literal renders the result of \<^verbatim>\<open>JSON.stringify\<close>; \<^verbatim>\<open>undefined\<close>
  prints as the word.
\<close>

definition render_optional :: "string option \<Rightarrow> string" where
  "render_optional s = (case s of None \<Rightarrow> ''undefined'' | Some t \<Rightarrow> t)"

subsection \<open>\<^verbatim>\<open>JSON.parse\<close> on the fragment\<close>

text \<open>
  The JSON grammar, as \<^verbatim>\<open>JSON.parse\<close> reads it, for the texts whose value lies in
  the fragment. The reader answers \<open>None\<close> where the text is not JSON, and also where its
  value is outside the fragment or is built otherwise than the list of the properties in
  the order of the text: a number that is not a 32-bit integer written without fraction
  and exponent, or is \<^verbatim>\<open>-0\<close>; an escape \<^verbatim>\<open>\u\<close> of a code unit from 256 on; an
  object with a repeated key, or with a key of digits only, which an object lists before
  its other keys. White space is space, tab, line feed and carriage return.
\<close>

definition json_ws :: "char \<Rightarrow> bool" where
  "json_ws c \<longleftrightarrow> c \<in> set [CHR 0x20, CHR 0x09, CHR 0x0A, CHR 0x0D]"

definition skip_ws :: "string \<Rightarrow> string" where
  "skip_ws cs = dropWhile json_ws cs"

definition digit :: "char \<Rightarrow> bool" where
  "digit c \<longleftrightarrow> c \<in> set ''0123456789''"

definition digits_value :: "string \<Rightarrow> nat" where
  "digits_value ds = foldl (\<lambda>n c. 10 * n + (of_char c - 48)) 0 ds"

definition hex_value :: "char \<Rightarrow> nat option" where
  "hex_value c =
     (if digit c then Some (of_char c - 48)
      else if c \<in> set ''abcdef'' then Some (of_char c - 87)
      else if c \<in> set ''ABCDEF'' then Some (of_char c - 55)
      else None)"

text \<open>The character that follows a backslash, other than \<^verbatim>\<open>u\<close>.\<close>

definition unescape :: "char \<Rightarrow> char option" where
  "unescape e =
     (if e = CHR 0x22 then Some (CHR 0x22)
      else if e = CHR 0x5C then Some (CHR 0x5C)
      else if e = CHR ''/'' then Some (CHR ''/'')
      else if e = CHR ''b'' then Some (CHR 0x08)
      else if e = CHR ''f'' then Some (CHR 0x0C)
      else if e = CHR ''n'' then Some (CHR 0x0A)
      else if e = CHR ''r'' then Some (CHR 0x0D)
      else if e = CHR ''t'' then Some (CHR 0x09)
      else None)"

definition cons_char :: "char \<Rightarrow> (string \<times> string) option \<Rightarrow> (string \<times> string) option" where
  "cons_char c r = (case r of None \<Rightarrow> None | Some (s, rest) \<Rightarrow> Some (c # s, rest))"

text \<open>
  A string, after its opening quote: the characters up to the closing quote, and the
  text after it. A control character is not allowed unescaped.
\<close>

fun parse_string_chars :: "string \<Rightarrow> (string \<times> string) option" where
  "parse_string_chars [] = None"
| "parse_string_chars (c # cs) =
     (if c = CHR 0x22 then Some ([], cs)
      else if c = CHR 0x5C then
        (case cs of
           [] \<Rightarrow> None
         | e # r \<Rightarrow>
             if e = CHR ''u'' then
               (case r of
                  a # b # h # l # r' \<Rightarrow>
                    (case (hex_value h, hex_value l) of
                       (Some x, Some y) \<Rightarrow>
                         if a = CHR ''0'' \<and> b = CHR ''0''
                         then cons_char (char_of (16 * x + y)) (parse_string_chars r')
                         else None
                     | _ \<Rightarrow> None)
                | _ \<Rightarrow> None)
             else
               (case unescape e of
                  None \<Rightarrow> None
                | Some x \<Rightarrow> cons_char x (parse_string_chars r)))
      else if (of_char c :: nat) < 32 then None
      else cons_char c (parse_string_chars cs))"

text \<open>
  A number: an optional minus sign and digits without a leading zero, not followed by a
  fraction or an exponent, of a value in the 32-bit range.
\<close>

definition parse_number :: "string \<Rightarrow> (js_value \<times> string) option" where
  "parse_number cs =
     (let negative = (cs \<noteq> [] \<and> hd cs = CHR ''-'');
          r = (if negative then tl cs else cs);
          ds = takeWhile digit r;
          rest = dropWhile digit r;
          n = int (digits_value ds)
      in if ds = [] \<or> (1 < length ds \<and> hd ds = CHR ''0'') then None
         else if rest \<noteq> [] \<and> hd rest \<in> set ''.eE'' then None
         else if negative \<and> n = 0 then None
         else if (if negative then 2147483648 < n else 2147483648 \<le> n) then None
         else Some (JNumber (word_of_int (if negative then - n else n)), rest))"

definition digit_key :: "string \<Rightarrow> bool" where
  "digit_key k \<longleftrightarrow> k \<noteq> [] \<and> list_all digit k"

definition plain_keys :: "(string \<times> js_value) list \<Rightarrow> bool" where
  "plain_keys ps \<longleftrightarrow> distinct (map fst ps) \<and> \<not> list_ex digit_key (map fst ps)"

text \<open>
  A value, the elements of an array after its opening bracket, and the members of an
  object after its opening brace, each with the text that follows. The first argument
  bounds the depth of the descent.
\<close>

fun parse_value :: "nat \<Rightarrow> string \<Rightarrow> (js_value \<times> string) option"
and parse_elems :: "nat \<Rightarrow> string \<Rightarrow> (js_value list \<times> string) option"
and parse_members :: "nat \<Rightarrow> string \<Rightarrow> ((string \<times> js_value) list \<times> string) option"
where
  "parse_value 0 cs = None"
| "parse_value (Suc n) cs =
     (case skip_ws cs of
        [] \<Rightarrow> None
      | c # r \<Rightarrow>
          if c = CHR 0x22 then
            (case parse_string_chars r of
               None \<Rightarrow> None
             | Some (s, rest) \<Rightarrow> Some (JString s, rest))
          else if c = CHR ''['' then
            (if take 1 (skip_ws r) = '']'' then Some (JArray [], drop 1 (skip_ws r))
             else (case parse_elems n r of
                     None \<Rightarrow> None
                   | Some (xs, rest) \<Rightarrow> Some (JArray xs, rest)))
          else if c = CHR ''{'' then
            (if take 1 (skip_ws r) = ''}'' then Some (JObject [], drop 1 (skip_ws r))
             else (case parse_members n r of
                     None \<Rightarrow> None
                   | Some (ps, rest) \<Rightarrow>
                       if plain_keys ps then Some (JObject ps, rest) else None))
          else if take 4 (c # r) = ''null'' then Some (JNull, drop 4 (c # r))
          else if take 4 (c # r) = ''true'' then Some (JBool True, drop 4 (c # r))
          else if take 5 (c # r) = ''false'' then Some (JBool False, drop 5 (c # r))
          else parse_number (c # r))"
| "parse_elems 0 cs = None"
| "parse_elems (Suc n) cs =
     (case parse_value n cs of
        None \<Rightarrow> None
      | Some (x, r) \<Rightarrow>
          if take 1 (skip_ws r) = '','' then
            (case parse_elems n (drop 1 (skip_ws r)) of
               None \<Rightarrow> None
             | Some (xs, rest) \<Rightarrow> Some (x # xs, rest))
          else if take 1 (skip_ws r) = '']'' then Some ([x], drop 1 (skip_ws r))
          else None)"
| "parse_members 0 cs = None"
| "parse_members (Suc n) cs =
     (if take 1 (skip_ws cs) = [CHR 0x22] then
        (case parse_string_chars (drop 1 (skip_ws cs)) of
           None \<Rightarrow> None
         | Some (k, r) \<Rightarrow>
             if take 1 (skip_ws r) = '':'' then
               (case parse_value n (drop 1 (skip_ws r)) of
                  None \<Rightarrow> None
                | Some (x, r') \<Rightarrow>
                    if take 1 (skip_ws r') = '','' then
                      (case parse_members n (drop 1 (skip_ws r')) of
                         None \<Rightarrow> None
                       | Some (ps, rest) \<Rightarrow> Some ((k, x) # ps, rest))
                    else if take 1 (skip_ws r') = ''}'' then Some ([(k, x)], drop 1 (skip_ws r'))
                    else None)
             else None)
      else None)"

text \<open>
  A JSON text is one value between white space. The depth of a text is less than its
  length (\<open>cost_bound\<close> below, for the texts that \<^verbatim>\<open>JSON.stringify\<close> writes).
\<close>

definition JSON_reference :: "string \<Rightarrow> js_value option" where
  "JSON_reference text =
     (case parse_value (length text) text of
        None \<Rightarrow> None
      | Some (v, rest) \<Rightarrow> if skip_ws rest = [] then Some v else None)"

section \<open>Strings\<close>

text \<open>\<^verbatim>\<open>/^[a-zA-Z_$][0-9a-zA-Z_$]*$/.test(s)\<close>\<close>

definition identifier_start :: "char \<Rightarrow> bool" where
  "identifier_start c \<longleftrightarrow> c \<in> set ''abcdefghijklmnopqrstuvwxyzABCDEFGHIJKLMNOPQRSTUVWXYZ_$''"

definition identifier_part :: "char \<Rightarrow> bool" where
  "identifier_part c \<longleftrightarrow> c \<in> set ''0123456789abcdefghijklmnopqrstuvwxyzABCDEFGHIJKLMNOPQRSTUVWXYZ_$''"

fun valid_identifier :: "string \<Rightarrow> bool" where
  "valid_identifier [] = False"
| "valid_identifier (c # cs) = (identifier_start c \<and> list_all identifier_part cs)"

text \<open>
  \<^verbatim>\<open>String.prototype.trim\<close> strips white space and line terminators; below 256
  these are tab, line feed, vertical tab, form feed, carriage return, space and the
  no-break space.
\<close>

definition js_space :: "char \<Rightarrow> bool" where
  "js_space c \<longleftrightarrow>
     c \<in> set [CHR 0x09, CHR 0x0A, CHR 0x0B, CHR 0x0C, CHR 0x0D, CHR 0x20, CHR 0xA0]"

definition trim :: "string \<Rightarrow> string" where
  "trim s = rev (dropWhile js_space (rev (dropWhile js_space s)))"

definition startsWith :: "string \<Rightarrow> string \<Rightarrow> bool" where
  "startsWith s p \<longleftrightarrow> take (length p) s = p"

definition endsWith :: "string \<Rightarrow> string \<Rightarrow> bool" where
  "endsWith s p \<longleftrightarrow> length p \<le> length s \<and> drop (length s - length p) s = p"

text \<open>\<^verbatim>\<open>s.substring(0, n)\<close>\<close>

definition substring0 :: "nat \<Rightarrow> string \<Rightarrow> string" where
  "substring0 n s = take n s"

text \<open>
  \<^verbatim>\<open>s.replace(/^```javascript|```$/g, '').trim()\<close>: the first alternative matches
  only at the start of the input, the second only at its end, and a global replace
  resumes after the text the first match consumed.
\<close>

definition strip_fences :: "string \<Rightarrow> string" where
  "strip_fences s =
     (let r = (if startsWith s ''```javascript'' then drop 13 s else s)
      in if endsWith r ''```'' then take (length r - 3) r else r)"

definition sanitize :: "string \<Rightarrow> string" where
  "sanitize s = trim (strip_fences s)"

text \<open>A template literal that spans lines: its lines, joined by line feeds.\<close>

definition template :: "string list \<Rightarrow> string" where
  "template ls = intercalate [CHR 0x0A] ls"

section \<open>The prompts\<close>

definition repair_preamble :: "string \<Rightarrow> string \<Rightarrow> string \<Rightarrow> string list" where
  \<open>repair_preamble name error_message previous_code =
     [''You are an expert JavaScript function generator assisting with a syntax error repair.'',
      ''The JavaScript code you previously generated for the asynchronous function named `'' @ name @ ''` had an error: '' @ error_message,
      [],
      ''The faulty code was:'',
      ''```javascript'',
      previous_code,
      ''```'',
      [],
      ''Please correct this error and provide the complete, valid asynchronous JavaScript function code again. Review the CRITICAL instructions below.'']\<close>

definition synthesis_preamble :: "string \<Rightarrow> string \<Rightarrow> string \<Rightarrow> string \<Rightarrow> string list" where
  \<open>synthesis_preamble name description schema_text api_text =
     [''You are an expert JavaScript function generator. Your task is to create a single, standalone asynchronous Node.js JavaScript function string based on the provided specification.'',
      [],
      ''Function Name: '' @ name,
      ''High-Level Description: '' @ description,
      ''Parameters Schema (for the '' @ [CHR 0x27] @ ''params'' @ [CHR 0x27] @ '' object this function will receive):'',
      schema_text,
      [],
      ''Host APIs:'',
      ''The function will be executed in an environment where an '' @ [CHR 0x27] @ ''external_apis'' @ [CHR 0x27] @ '' object is available.'',
      ''Call these host APIs like: `await external_apis.someApiName(arguments_dictionary_for_host_api);`'',
      ''Available Host APIs (in `external_apis` object):'',
      api_text,
      [],
      []]\<close>

definition critical_instructions :: "string \<Rightarrow> string list" where
  \<open>critical_instructions name =
     [''CRITICAL Instructions for JavaScript Code Generation:'',
      ''1.  Write a single asynchronous JavaScript function: `async function '' @ name @ ''(params) { ... }`.'',
      ''    - The `params` argument will be an object containing parameters as defined in the schema.'',
      ''    - The `external_apis` object will be available in the function'' @ [CHR 0x27] @ ''s scope (closure).'',
      ''2.  The function MUST return a string. This string can be a simple message or a JSON stringified object (using `JSON.stringify`).'',
      ''    - If you need to return structured data, return a JSON string like `JSON.stringify({ success: true, message: "..." })`.'',
      ''    - If reporting an error from within the function logic (e.g., invalid parameters), return a string starting with "Error: " or a JSON string like `JSON.stringify({ error: "..." })`.'',
      ''3.  Use `await` when calling functions from the `external_apis` object, as they are asynchronous. Example: `const apiResultString = await external_apis.someHostFunction({...});`'',
      ''4.  Avoid top-level `try...catch` blocks for the *entire* function body, as the executor handles overarching errors. However, you *SHOULD* use `try...catch` for specific, fallible operations like calls to `external_apis.someFunction(...)` or `JSON.parse(...)` if you want to handle their errors gracefully *within* the function and return a custom error message (as a string). If an error within such a try/catch is not re-thrown and you handle it, ensure the function still returns a string.'',
      ''5.  To parse a JSON string returned by a host API, use `JSON.parse(result_string)`. Example: `const data = JSON.parse(apiResultString); if (!data.success) return JSON.stringify({error: data.error });`'',
      ''6.  To access parameters from the `params` object, use standard JavaScript property access: `params.parameterName` or `params['' @ [CHR 0x27] @ ''parameterName'' @ [CHR 0x27] @ '']`. For optional parameters, use `params.parameterName || defaultValue` or check if `params.parameterName !== undefined`.'',
      ''7.  DO NOT include any `require()` calls or access `process`, `fs`, etc. These modules are not available in the sandbox environment. Functions like `uuidv4` (for generating UUIDs) and basic `Math` functions ARE available directly in the sandbox. The `THREE` library is NOT available. If you need vector math, implement simple helper functions for it within your generated code string or perform calculations component-wise.'',
      ''8.  Output ONLY the JavaScript function code block. Do NOT include ```javascript or any other surrounding text or explanations.'',
      ''9.  Ensure all paths in your function return a string.'',
      []]\<close>

definition example_function_structure :: "string list" where
  \<open>example_function_structure =
     [''Example Function Structure (Pay ATTENTION to async/await, direct external_apis access, JSON parsing, and error handling):'',
      ''```javascript'',
      ''async function exampleTool(params) {'',
      ''    // Example of simple vector math helper (if needed, THREE is not available)'',
      ''    // function vecSubtract(v1, v2) { return [v1[0]-v2[0], v1[1]-v2[1], v1[2]-v2[2]]; }'',
      [],
      ''    const requiredParam = params.myRequiredParam;'',
      ''    const optionalParam = params.myOptionalParam || '' @ [CHR 0x27] @ ''default value for optional'' @ [CHR 0x27] @ '';'',
      [],
      ''    if (requiredParam === undefined) {'',
      ''        return JSON.stringify({ error: "Missing myRequiredParam." });'',
      ''    }'',
      [],
      ''    let hostApiResultString;'',
      ''    try {'',
      ''        const argsForHostApi = { input_data: requiredParam, user_id: params.user_id_if_available };'',
      ''        hostApiResultString = await external_apis.someDescribedHostFunction(argsForHostApi);'',
      ''    } catch (e) {'',
      ''        // Handle potential errors when calling the host API itself (e.g., network issues)'',
      ''        // This error is caught, and a string is returned, so the main executor won'' @ [CHR 0x27] @ ''t see it as an unhandled exception.'',
      ''        return JSON.stringify({ error: `Error during host API call: ${e.message}`});'',
      ''    }'',
      [],
      ''    let hostApiData;'',
      ''    try {'',
      ''        hostApiData = JSON.parse(hostApiResultString);'',
      ''        if (!hostApiData.success) { '',
      ''            return JSON.stringify({ error: `Host API reported failure: ${hostApiData.error || hostApiData.message || '' @ [CHR 0x27] @ ''Unknown API error'' @ [CHR 0x27] @ ''}` });'',
      ''        }'',
      ''        return JSON.stringify({ success: true, message: `Host API processed data: ${hostApiData.processed_info}`});'',
      ''    } catch (e) {'',
      ''        return JSON.stringify({ error: `Error parsing host API response as JSON: ${e.message}. Raw response: ${hostApiResultString}`});'',
      ''    }'',
      ''}'',
      ''```'',
      []]\<close>

definition your_task :: "string \<Rightarrow> string list" where
  \<open>your_task name =
     [''Your Task:'',
      ''Generate *only* the asynchronous JavaScript function code for `'' @ name @ ''` based *exactly* on the specification provided above. Ensure correct JavaScript syntax, including async/await and object property access. All paths should return a string.'']\<close>

definition no_host_apis_described :: string where
  "no_host_apis_described = ''No specific host APIs were described for this task. If you need to call any, ensure their names and argument structures are well-known or that the function can operate without them.''"

text \<open>The text that \<^verbatim>\<open>prompt += ...\<close> appends to either preamble.\<close>

definition code_generation_rules :: "string \<Rightarrow> string" where
  "code_generation_rules name =
     template ([[]] @ critical_instructions name @ example_function_structure
                @ your_task name @ [[]])"

text \<open>
  A parameter declared with the default \<^verbatim>\<open>null\<close>: an argument that is
  \<^verbatim>\<open>undefined\<close> is replaced by it.
\<close>

definition default_null :: "js_value \<Rightarrow> js_value" where
  "default_null v = (if v = JUndefined then JNull else v)"

text \<open>
  \<^verbatim>\<open>_generateJSFunctionCreationPrompt\<close>, whose parameters \<^verbatim>\<open>previous_code\<close>
  and \<^verbatim>\<open>error_message\<close> default to \<^verbatim>\<open>null\<close>. Only the synthesis prompt
  serializes the schema, so only it can throw.
\<close>

definition generateJSFunctionCreationPrompt ::
  "js_value \<Rightarrow> js_value \<Rightarrow> js_value \<Rightarrow> js_value \<Rightarrow> bool \<Rightarrow> js_value \<Rightarrow> js_value
     \<Rightarrow> string js_result" where
  "generateJSFunctionCreationPrompt name description parameters_schema
       host_provided_api_description is_repair previous_code error_message =
     (if is_repair then
        Inr (template (repair_preamble (js_to_string name)
               (js_to_string (default_null error_message))
               (js_to_string (default_null previous_code)))
             @ code_generation_rules (js_to_string name))
      else
        (case JSON_stringify_2 parameters_schema of
           Inl e \<Rightarrow> Inl e
         | Inr schema_text \<Rightarrow>
             Inr (template (synthesis_preamble (js_to_string name) (js_to_string description)
                    (render_optional schema_text)
                    (js_to_string (js_or host_provided_api_description
                       (JString no_host_apis_described))))
                  @ code_generation_rules (js_to_string name))))"

section \<open>The scripts handed to \<^verbatim>\<open>vm.Script\<close>\<close>

definition syntax_check_lines :: "string \<Rightarrow> string \<Rightarrow> string list" where
  \<open>syntax_check_lines code name =
     [[],
      ''                        let funcToCheck;'',
      ''                        '' @ code,
      ''                        if (typeof '' @ name @ '' === '' @ [CHR 0x27] @ ''function'' @ [CHR 0x27] @ '') {'',
      ''                            funcToCheck = '' @ name @ '';'',
      ''                        } else {'',
      ''                            throw new Error('' @ [CHR 0x27] @ ''Generated code did not define a function named '' @ name @ ''.'' @ [CHR 0x27] @ '');'',
      ''                        }'',
      ''                    '']\<close>

definition syntax_check_predefined_lines :: "string \<Rightarrow> string \<Rightarrow> string list" where
  \<open>syntax_check_predefined_lines code name =
     [[],
      ''                let funcToCheck;'',
      ''                '' @ code,
      ''                if (typeof '' @ name @ '' === '' @ [CHR 0x27] @ ''function'' @ [CHR 0x27] @ '') {'',
      ''                    funcToCheck = '' @ name @ '';'',
      ''                } else {'',
      ''                    throw new Error('' @ [CHR 0x27] @ ''Provided code_string did not define a function named '' @ name @ ''.'' @ [CHR 0x27] @ '');'',
      ''                }'',
      ''            '']\<close>

definition wrapped_code_lines :: "string \<Rightarrow> string \<Rightarrow> string list" where
  \<open>wrapped_code_lines code name =
     [[],
      ''                (async () => {'',
      ''                    '' @ code,
      ''                    if (typeof '' @ name @ '' !== '' @ [CHR 0x27] @ ''function'' @ [CHR 0x27] @ '') {'',
      ''                        throw new Error('' @ [CHR 0x27] @ ''Generated code did not define a callable function named '' @ name @ ''. Typeof: '' @ [CHR 0x27] @ '' + typeof '' @ name @ '');'',
      ''                    }'',
      ''                    return await '' @ name @ ''(params);'',
      ''                })()'',
      ''            '']\<close>


section \<open>The world of the executor\<close>

text \<open>
  The directory \<^verbatim>\<open>FUNCTION_CODE_DIR\<close>, by entry name and in listing order, and the
  prompts sent to the language model so far, oldest first. The name of an entry holds no
  separator. Console output is not part of the state.
\<close>

datatype node = File string | Directory

record world =
  files :: "(string \<times> node) list"
  oracle_calls :: "string list"

text \<open>
  What \<^verbatim>\<open>openai_client.chat.completions.create\<close> and the read of
  \<^verbatim>\<open>response.choices[0]?.message?.content\<close> come to: a throw (the request fails, or
  the response has no \<^verbatim>\<open>choices\<close>), or the content, which may be missing.
\<close>

datatype llm_reply = LLMFails string | LLMContent "string option"

text \<open>What the sandbox object holds under a key.\<close>

datatype binding =
    Value js_value
  | HostJSON
  | HostUuidv4
  | HostMath
  | GuestConsole string
  | HostSetTimeout
  | HostClearTimeout
  | HostSetInterval
  | HostClearInterval
  | HostPromise

text \<open>
  What a \<^verbatim>\<open>catch\<close> around stored code receives: an \<^verbatim>\<open>Error\<close> object, given by
  its \<^verbatim>\<open>message\<close>, or any other value, as \<^verbatim>\<open>throw null\<close> and
  \<^verbatim>\<open>Promise.reject()\<close> hand over.
\<close>

datatype thrown = ErrorObject string | Thrown js_value

text \<open>
  \<^verbatim>\<open>await script.runInContext(context)\<close>: the run throws, or yields a promise that
  fulfils, rejects, or stays pending (a run that never comes back is \<open>NeverSettles\<close>
  too).
\<close>

datatype guest_outcome = RunThrows thrown | Fulfilled js_value | Rejected thrown | NeverSettles

text \<open>
  What Node.js and the language model contribute. \<open>vm_compile\<close> is
  \<^verbatim>\<open>new vm.Script(source, options)\<close>, which compiles and runs nothing: \<open>Some m\<close> is
  the \<^verbatim>\<open>SyntaxError\<close> it throws. \<open>vm_run\<close> is \<^verbatim>\<open>runInContext\<close> on the context
  made from the sandbox object. \<open>llm n p\<close> answers the \<open>n\<close>-th request, made with
  prompt \<open>p\<close>; every request is taken to complete. \<open>JSON_parse_rest\<close> is
  \<^verbatim>\<open>JSON.parse\<close> on the texts that the reader of the JSON grammar leaves unanswered,
  \<open>Inl\<close> its \<^verbatim>\<open>SyntaxError\<close>. \<open>FUNCTION_CODE_DIR\<close> is the
  absolute path \<^verbatim>\<open>path.join(__dirname, 'generated_functions_js')\<close>, and
  \<open>other_files\<close> is the rest of the file system, by the segments of the absolute path:
  the program reads there and never writes.
\<close>

record runtime =
  FUNCTION_CODE_DIR :: string
  other_files :: "string list \<Rightarrow> node option"
  vm_compile :: "string \<Rightarrow> string option"
  vm_run :: "string \<Rightarrow> (string \<times> binding) list \<Rightarrow> guest_outcome"
  JSON_parse_rest :: "string \<Rightarrow> js_value js_result"
  llm :: "nat \<Rightarrow> string \<Rightarrow> llm_reply"

text \<open>
  \<^verbatim>\<open>JSON.parse\<close>: the value that the JSON grammar gives the text, and for a text
  without one what the runtime does.
\<close>

definition JSON_parse :: "runtime \<Rightarrow> string \<Rightarrow> js_value js_result" where
  "JSON_parse rt text =
     (case JSON_reference text of
        Some v \<Rightarrow> Inr v
      | None \<Rightarrow> JSON_parse_rest rt text)"

text \<open>How a call of an \<^verbatim>\<open>async\<close> method ends for its caller.\<close>

datatype 'a completion = Returns 'a | Raises string | Hangs

subsection \<open>Paths\<close>

text \<open>
  \<^verbatim>\<open>path.join(FUNCTION_CODE_DIR, entry)\<close> on a POSIX system: the segments of both
  arguments, normalized. An empty segment and \<^verbatim>\<open>.\<close> are dropped, \<^verbatim>\<open>..\<close>
  removes the segment before it, and stays at the root when there is none. The result
  is kept as the list of its segments; \<open>path_text\<close> is its text.
\<close>

fun split_slash :: "string \<Rightarrow> string list" where
  "split_slash [] = [[]]"
| "split_slash (c # cs) =
     (if c = CHR ''/'' then [] # split_slash cs
      else (case split_slash cs of
              [] \<Rightarrow> [[c]]
            | seg # segs \<Rightarrow> (c # seg) # segs))"

definition path_step :: "string list \<Rightarrow> string \<Rightarrow> string list" where
  "path_step stack seg =
     (if seg = [] \<or> seg = ''.'' then stack
      else if seg = ''..'' then tl stack
      else seg # stack)"

definition normalize_segments :: "string list \<Rightarrow> string list" where
  "normalize_segments segs = rev (foldl path_step [] segs)"

definition path_join :: "string \<Rightarrow> string \<Rightarrow> string list" where
  "path_join dir entry = normalize_segments (split_slash dir @ split_slash entry)"

definition path_text :: "string list \<Rightarrow> string" where
  "path_text segs = ''/'' @ intercalate ''/'' segs"

subsection \<open>The file system calls\<close>

text \<open>
  What is at a path: an entry of the directory \<^verbatim>\<open>FUNCTION_CODE_DIR\<close> when the path
  is the directory's followed by one segment, and what the rest of the file system has
  there otherwise. An entry is a regular file or a directory.
\<close>

definition node_at :: "runtime \<Rightarrow> (string \<times> node) list \<Rightarrow> string list \<Rightarrow> node option" where
  "node_at rt fs p =
     (if p \<noteq> [] \<and> butlast p = normalize_segments (split_slash (FUNCTION_CODE_DIR rt))
      then map_of fs (last p)
      else other_files rt p)"

text \<open>
  \<^verbatim>\<open>fs.existsSync\<close> and \<^verbatim>\<open>fs.readFileSync\<close> at
  \<^verbatim>\<open>path.join(FUNCTION_CODE_DIR, entry)\<close>, for any text \<open>entry\<close>: the read throws on
  a directory and on a missing file.
\<close>

definition fs_existsSync :: "runtime \<Rightarrow> (string \<times> node) list \<Rightarrow> string \<Rightarrow> bool" where
  "fs_existsSync rt fs entry \<longleftrightarrow>
     node_at rt fs (path_join (FUNCTION_CODE_DIR rt) entry) \<noteq> None"

definition fs_readFileSync :: "runtime \<Rightarrow> (string \<times> node) list \<Rightarrow> string \<Rightarrow> string js_result" where
  "fs_readFileSync rt fs entry =
     (case node_at rt fs (path_join (FUNCTION_CODE_DIR rt) entry) of
        Some (File content) \<Rightarrow> Inr content
      | Some Directory \<Rightarrow> Inl ''EISDIR: illegal operation on a directory, read''
      | None \<Rightarrow>
          Inl (''ENOENT: no such file or directory, open '' @ [CHR 0x27]
               @ path_text (path_join (FUNCTION_CODE_DIR rt) entry) @ [CHR 0x27]))"

text \<open>
  \<^verbatim>\<open>fs.writeFileSync\<close> and \<^verbatim>\<open>fs.unlinkSync\<close> at
  \<^verbatim>\<open>path.join(FUNCTION_CODE_DIR, entry)\<close>. The program calls them with the name of
  a record, which has passed the test for an identifier, and with a name out of the
  listing of the directory: a text with no separator in it, which the join leaves as it
  is (\<open>path_join_plain\<close> below), so that the path is the entry of that name. The calls
  throw as Node.js does: a write of a directory, an unlink of a directory or of a missing
  entry.
\<close>

definition fs_writeFileSync ::
  "runtime \<Rightarrow> (string \<times> node) list \<Rightarrow> string \<Rightarrow> string \<Rightarrow> (string \<times> node) list js_result" where
  "fs_writeFileSync rt fs entry content =
     (case map_of fs entry of
        Some Directory \<Rightarrow>
          Inl (''EISDIR: illegal operation on a directory, open '' @ [CHR 0x27]
               @ path_text (path_join (FUNCTION_CODE_DIR rt) entry) @ [CHR 0x27])
      | _ \<Rightarrow> Inr (AList.update entry (File content) fs))"

definition fs_unlinkSync ::
  "runtime \<Rightarrow> (string \<times> node) list \<Rightarrow> string \<Rightarrow> (string \<times> node) list js_result" where
  "fs_unlinkSync rt fs entry =
     (case map_of fs entry of
        Some (File content) \<Rightarrow> Inr (AList.delete entry fs)
      | Some Directory \<Rightarrow>
          Inl (''EISDIR: illegal operation on a directory, unlink '' @ [CHR 0x27]
               @ path_text (path_join (FUNCTION_CODE_DIR rt) entry) @ [CHR 0x27])
      | None \<Rightarrow>
          Inl (''ENOENT: no such file or directory, unlink '' @ [CHR 0x27]
               @ path_text (path_join (FUNCTION_CODE_DIR rt) entry) @ [CHR 0x27]))"

definition fs_readdirSync :: "(string \<times> node) list \<Rightarrow> string list" where
  "fs_readdirSync fs = map fst fs"

section \<open>\<^verbatim>\<open>class DynamicExecutorJS\<close>\<close>

text \<open>
  A getter is what calling it gives. \<open>None\<close> is the constructor's \<^verbatim>\<open>null\<close>.
\<close>

record executor =
  host_api_description_getter :: "js_value js_result option"
  host_api_execution_dict_getter :: "js_value js_result option"
  is_debug :: bool
  MAX_SYNTAX_REPAIR_RETRIES :: nat

definition DynamicExecutorJS :: executor where
  "DynamicExecutorJS =
     \<lparr>host_api_description_getter = None, host_api_execution_dict_getter = None,
      is_debug = True, MAX_SYNTAX_REPAIR_RETRIES = 3\<rparr>"

definition initialize_store_js ::
  "executor \<Rightarrow> js_value js_result option \<Rightarrow> js_value js_result option \<Rightarrow> executor" where
  "initialize_store_js ex apiDescriptionGetter apiExecutionDictGetter =
     ex\<lparr>host_api_description_getter := apiDescriptionGetter,
        host_api_execution_dict_getter := apiExecutionDictGetter\<rparr>"

subsection \<open>\<^verbatim>\<open>clear_function_store_js\<close>\<close>

text \<open>
  The loop over the listing, inside the \<^verbatim>\<open>try\<close>: the first \<^verbatim>\<open>unlinkSync\<close> that
  throws ends it, and the \<^verbatim>\<open>catch\<close> only logs.
\<close>

fun unlink_json_files ::
  "runtime \<Rightarrow> string list \<Rightarrow> (string \<times> node) list \<Rightarrow> (string \<times> node) list" where
  "unlink_json_files rt [] fs = fs"
| "unlink_json_files rt (file # rest) fs =
     (if endsWith file ''.json'' then
        (case fs_unlinkSync rt fs file of
           Inl e \<Rightarrow> fs
         | Inr fs' \<Rightarrow> unlink_json_files rt rest fs')
      else unlink_json_files rt rest fs)"

definition clear_function_store_js :: "runtime \<Rightarrow> world \<Rightarrow> world" where
  "clear_function_store_js rt w =
     w\<lparr>files := unlink_json_files rt (fs_readdirSync (files w)) (files w)\<rparr>"


subsection \<open>\<^verbatim>\<open>create_dynamic_function\<close>\<close>

text \<open>The three variables the repair loop assigns.\<close>

record attempt_state =
  generated_code_string :: js_value
  last_error :: "string option"
  sanitized_code :: string

text \<open>
  \<^verbatim>\<open>host_provided_api_description_for_new_func || (this.host_api_description_getter
  ? this.host_api_description_getter() : "No host APIs provided.")\<close>
\<close>

definition api_description_argument :: "executor \<Rightarrow> js_value \<Rightarrow> js_value js_result" where
  "api_description_argument ex host_provided =
     (if truthy host_provided then Inr host_provided
      else (case host_api_description_getter ex of
              None \<Rightarrow> Inr (JString ''No host APIs provided.'')
            | Some r \<Rightarrow> r))"

definition js_optional :: "string option \<Rightarrow> js_value" where
  "js_optional s = (case s of None \<Rightarrow> JUndefined | Some t \<Rightarrow> JString t)"

definition error_message_argument :: "string option \<Rightarrow> js_value" where
  "error_message_argument e = (case e of None \<Rightarrow> JNull | Some m \<Rightarrow> JString m)"

text \<open>
  One pass through the body of the \<^verbatim>\<open>for\<close> loop. The flag is \<open>True\<close> for
  \<^verbatim>\<open>break\<close>. The outer \<^verbatim>\<open>catch\<close> receives what building the prompt or the
  request throws, the inner one what \<^verbatim>\<open>new vm.Script\<close> throws.
\<close>

definition attempt_body ::
  "executor \<Rightarrow> runtime \<Rightarrow> js_value \<Rightarrow> js_value \<Rightarrow> js_value \<Rightarrow> js_value \<Rightarrow> nat
     \<Rightarrow> attempt_state \<Rightarrow> world \<Rightarrow> bool \<times> attempt_state \<times> world" where
  "attempt_body ex rt new_function_name new_function_description new_function_parameters_schema
       host_provided attempt s w =
     (case api_description_argument ex host_provided of
        Inl e \<Rightarrow> (False, s\<lparr>last_error := Some e\<rparr>, w)
      | Inr api_description \<Rightarrow>
     (case generateJSFunctionCreationPrompt new_function_name new_function_description
             new_function_parameters_schema api_description (0 < attempt)
             (generated_code_string s) (error_message_argument (last_error s)) of
        Inl e \<Rightarrow> (False, s\<lparr>last_error := Some e\<rparr>, w)
      | Inr prompt \<Rightarrow>
          (let w' = w\<lparr>oracle_calls := oracle_calls w @ [prompt]\<rparr> in
           case llm rt (length (oracle_calls w)) prompt of
             LLMFails e \<Rightarrow> (False, s\<lparr>last_error := Some e\<rparr>, w')
           | LLMContent content \<Rightarrow>
               (let s1 = s\<lparr>generated_code_string := js_optional (map_option trim content)\<rparr> in
                if \<not> truthy (generated_code_string s1) then
                  (False, s1\<lparr>last_error := Some ''LLM returned empty code string.''\<rparr>, w')
                else
                  (let s2 = s1\<lparr>sanitized_code :=
                              sanitize (js_to_string (generated_code_string s1))\<rparr> in
                   case vm_compile rt (template (syntax_check_lines (sanitized_code s2)
                                         (js_to_string new_function_name))) of
                     None \<Rightarrow> (True, s2\<lparr>last_error := None\<rparr>, w')
                   | Some m \<Rightarrow> (False, s2\<lparr>last_error := Some m\<rparr>, w'))))))"

text \<open>
  \<^verbatim>\<open>for (let attempt = 0; attempt < this.MAX_SYNTAX_REPAIR_RETRIES + 1; attempt++)\<close>
\<close>

function repair_loop ::
  "executor \<Rightarrow> runtime \<Rightarrow> js_value \<Rightarrow> js_value \<Rightarrow> js_value \<Rightarrow> js_value \<Rightarrow> nat
     \<Rightarrow> attempt_state \<Rightarrow> world \<Rightarrow> attempt_state \<times> world" where
  "repair_loop ex rt name description schema host_provided attempt s w =
     (if attempt < MAX_SYNTAX_REPAIR_RETRIES ex + 1 then
        (case attempt_body ex rt name description schema host_provided attempt s w of
           (True, s', w') \<Rightarrow> (s', w')
         | (False, s', w') \<Rightarrow>
             repair_loop ex rt name description schema host_provided (attempt + 1) s' w')
      else (s, w))"
  by pat_completeness auto
termination
  by (relation "measure (\<lambda>(ex, rt, name, description, schema, host_provided, attempt, s, w).
        MAX_SYNTAX_REPAIR_RETRIES ex + 1 - attempt)") auto

text \<open>The record that \<^verbatim>\<open>create_dynamic_function\<close> and
  \<^verbatim>\<open>store_predefined_function_js\<close> write.\<close>

definition funcData_record :: "js_value \<Rightarrow> js_value \<Rightarrow> js_value \<Rightarrow> js_value \<Rightarrow> js_value" where
  "funcData_record name description parameters_schema_json code_string =
     JObject [(''name'', name),
              (''description'', description),
              (''parameters_schema_json'', parameters_schema_json),
              (''code_string'', code_string),
              (''is_internal_special_function'', JBool False)]"

text \<open>
  \<^verbatim>\<open>fs.writeFileSync(filePath, JSON.stringify(data, null, 2))\<close>;
  \<^verbatim>\<open>writeFileSync\<close> throws on data that is \<^verbatim>\<open>undefined\<close>.
\<close>

definition write_record :: "runtime \<Rightarrow> world \<Rightarrow> string \<Rightarrow> js_value \<Rightarrow> world js_result" where
  \<open>write_record rt w entry data =
     (case JSON_stringify_2 data of
        Inl e \<Rightarrow> Inl e
      | Inr None \<Rightarrow>
          Inl (''The "data" argument must be of type string or an instance of Buffer, ''
               @ ''TypedArray, or DataView. Received undefined'')
      | Inr (Some text) \<Rightarrow>
          (case fs_writeFileSync rt (files w) entry text of
             Inl e \<Rightarrow> Inl e
           | Inr fs' \<Rightarrow> Inr (w\<lparr>files := fs'\<rparr>)))\<close>

text \<open>The last \<^verbatim>\<open>try\<close> block of \<^verbatim>\<open>create_dynamic_function\<close>.\<close>

definition store_generated ::
  "runtime \<Rightarrow> world \<Rightarrow> js_value \<Rightarrow> js_value \<Rightarrow> js_value \<Rightarrow> string \<Rightarrow> string \<times> world" where
  "store_generated rt w new_function_name new_function_description
       new_function_parameters_schema code =
     (case JSON_stringify new_function_parameters_schema of
        Inl e \<Rightarrow>
          (''Error: Failed to store JS function definition '' @ js_to_string new_function_name
             @ ''. '' @ e, w)
      | Inr schema_json \<Rightarrow>
          (case write_record rt w (js_to_string new_function_name @ ''.json'')
                  (funcData_record new_function_name new_function_description
                     (js_optional schema_json) (JString code)) of
             Inl e \<Rightarrow>
               (''Error: Failed to store JS function definition ''
                  @ js_to_string new_function_name @ ''. '' @ e, w)
           | Inr w' \<Rightarrow>
               (''Successfully created/updated JS dynamic function: ''
                  @ js_to_string new_function_name, w')))"

text \<open>The message of both checks of the name.\<close>

definition invalid_name_message :: "string \<Rightarrow> string" where
  "invalid_name_message name =
     ''Error: Invalid JS function name '' @ [CHR 0x27] @ name @ [CHR 0x27] @ ''.''"

definition initial_attempt_state :: attempt_state where
  "initial_attempt_state =
     \<lparr>generated_code_string = JString [], last_error = None, sanitized_code = []\<rparr>"

definition create_dynamic_function ::
  "executor \<Rightarrow> runtime \<Rightarrow> world \<Rightarrow> js_value \<Rightarrow> js_value \<Rightarrow> js_value \<Rightarrow> js_value
     \<Rightarrow> string \<times> world" where
  "create_dynamic_function ex rt w new_function_name new_function_description
       new_function_parameters_schema host_provided =
     (if \<not> truthy new_function_name \<or> \<not> truthy new_function_description
           \<or> \<not> truthy new_function_parameters_schema then
        (''Error: Missing required arguments for JS function creation.'', w)
      else if \<not> valid_identifier (js_to_string new_function_name) then
        (invalid_name_message (js_to_string new_function_name), w)
      else
        (case repair_loop ex rt new_function_name new_function_description
                new_function_parameters_schema host_provided 0 initial_attempt_state w of
           (s, w') \<Rightarrow>
             (case last_error s of
                Some m \<Rightarrow>
                  (''Error: Failed to generate/validate JS code for ''
                     @ js_to_string new_function_name @ '' after ''
                     @ show_nat (MAX_SYNTAX_REPAIR_RETRIES ex + 1)
                     @ '' attempt(s). Last error: '' @ m, w')
              | None \<Rightarrow>
                  store_generated rt w' new_function_name new_function_description
                    new_function_parameters_schema (sanitized_code s))))"

subsection \<open>\<^verbatim>\<open>store_predefined_function_js\<close>\<close>

definition is_string :: "js_value \<Rightarrow> bool" where
  "is_string v \<longleftrightarrow> typeof v = ''string''"

definition store_predefined_function_js ::
  "runtime \<Rightarrow> world \<Rightarrow> js_value \<Rightarrow> string completion \<times> world" where
  "store_predefined_function_js rt w funcData =
     (if nullish funcData then
        (Raises (''Cannot destructure property '' @ [CHR 0x27] @ ''name'' @ [CHR 0x27] @ '' of ''
           @ [CHR 0x27] @ ''funcData'' @ [CHR 0x27] @ '' as it is '' @ js_to_string funcData
           @ ''.''), w)
      else
        (let name = read_prop funcData ''name'';
             description = read_prop funcData ''description'';
             parameters_schema_json = read_prop funcData ''parameters_schema_json'';
             code_string = read_prop funcData ''code_string''
         in
          if \<not> truthy name \<or> \<not> truthy description \<or> \<not> truthy parameters_schema_json
               \<or> \<not> truthy code_string then
            (Returns (''Error: Missing required fields in funcData for ''
               @ js_to_string (js_or name (JString ''unnamed function''))
               @ ''. Required: name, description, parameters_schema_json, code_string.''), w)
          else if \<not> valid_identifier (js_to_string name) then
            (Returns (invalid_name_message (js_to_string name)), w)
          else
            (case vm_compile rt (template (syntax_check_predefined_lines
                    (js_to_string code_string) (js_to_string name))) of
               Some m \<Rightarrow>
                 if is_string code_string then
                   (Returns (''Error: Syntax error in predefined function '' @ js_to_string name
                      @ '': '' @ m), w)
                 else (Raises ''code_string.substring is not a function'', w)
             | None \<Rightarrow>
                 (case write_record rt w (js_to_string name @ ''.json'')
                         (funcData_record name description parameters_schema_json code_string) of
                    Inl e \<Rightarrow>
                      (Returns (''Error storing predefined JS function definition ''
                         @ js_to_string name @ '': '' @ e), w)
                  | Inr w' \<Rightarrow>
                      (Returns (''Successfully stored predefined JS function: ''
                         @ js_to_string name), w')))))"

subsection \<open>\<^verbatim>\<open>get_function_definition_js\<close>\<close>

text \<open>\<open>JNull\<close> is the \<^verbatim>\<open>null\<close> of both \<^verbatim>\<open>return null\<close>.\<close>

definition get_function_definition_js :: "runtime \<Rightarrow> world \<Rightarrow> string \<Rightarrow> js_value" where
  "get_function_definition_js rt w function_name =
     (let entry = function_name @ ''.json'' in
      if fs_existsSync rt (files w) entry then
        (case fs_readFileSync rt (files w) entry of
           Inl e \<Rightarrow> JNull
         | Inr fileContent \<Rightarrow>
             (case JSON_parse rt fileContent of
                Inl e \<Rightarrow> JNull
              | Inr funcData \<Rightarrow>
                  (case get_prop funcData ''parameters_schema_json'' of
                     Inl e \<Rightarrow> JNull
                   | Inr schema_json \<Rightarrow>
                       (case JSON_parse rt (js_to_string schema_json) of
                          Inl e \<Rightarrow> JNull
                        | Inr schema \<Rightarrow>
                            JObject (AList.update ''parameters_schema'' schema
                                       (own_props funcData))))))
      else JNull)"


subsection \<open>\<^verbatim>\<open>execute_dynamic_function\<close>\<close>

definition FUNCTION_CREATION_TOOL_NAME :: string where
  "FUNCTION_CREATION_TOOL_NAME = ''create_dynamic_function''"

text \<open>The object given to \<^verbatim>\<open>vm.createContext\<close>, key by key.\<close>

definition sandbox :: "string \<Rightarrow> js_value \<Rightarrow> js_value \<Rightarrow> (string \<times> binding) list" where
  "sandbox function_name params_for_function external_apis =
     [(''params'', Value params_for_function),
      (''external_apis'', Value external_apis),
      (''JSON'', HostJSON),
      (''uuidv4'', HostUuidv4),
      (''Math'', HostMath),
      (''console'', GuestConsole function_name),
      (''setTimeout'', HostSetTimeout),
      (''clearTimeout'', HostClearTimeout),
      (''setInterval'', HostSetInterval),
      (''clearInterval'', HostClearInterval),
      (''Promise'', HostPromise)]"

text \<open>
  The first statement of the method, outside every \<^verbatim>\<open>try\<close>: the argument of
  \<^verbatim>\<open>debug_log\<close> is \<^verbatim>\<open>JSON.stringify(params_for_function).substring(0, 100)\<close>,
  evaluated whether or not debugging is on.
\<close>

definition log_params :: "js_value \<Rightarrow> string js_result" where
  "log_params params_for_function =
     (case JSON_stringify params_for_function of
        Inl e \<Rightarrow> Inl e
      | Inr None \<Rightarrow>
          Inl (''Cannot read properties of undefined (reading '' @ [CHR 0x27] @ ''substring''
               @ [CHR 0x27] @ '')'')
      | Inr (Some text) \<Rightarrow> Inr (substring0 100 text))"

text \<open>The branch for the reserved name.\<close>

definition execute_creation_tool ::
  "executor \<Rightarrow> runtime \<Rightarrow> world \<Rightarrow> string \<Rightarrow> js_value \<Rightarrow> js_value completion \<times> world" where
  "execute_creation_tool ex rt w function_name params_for_function =
     (case get_prop params_for_function ''host_provided_api_description_for_new_func'' of
        Inl e \<Rightarrow>
          (Returns (JString (''Error: Failed to execute internal JS function '' @ function_name
             @ ''. '' @ e)), w)
      | Inr hostApiDesc \<Rightarrow>
          (let creationParams =
                 JObject (AList.delete ''host_provided_api_description_for_new_func''
                            (own_props params_for_function));
               missing = filter (\<lambda>arg. read_prop creationParams arg = JUndefined)
                           [''new_function_name'', ''new_function_description'',
                            ''new_function_parameters_schema'']
           in case missing of
                arg # _ \<Rightarrow>
                  (Returns (JString (''Error: Missing required parameter '' @ [CHR 0x27] @ arg
                     @ [CHR 0x27] @ '' for '' @ function_name @ ''.'')), w)
              | [] \<Rightarrow>
                  (case create_dynamic_function ex rt w
                          (read_prop creationParams ''new_function_name'')
                          (read_prop creationParams ''new_function_description'')
                          (read_prop creationParams ''new_function_parameters_schema'')
                          hostApiDesc of
                     (message, w') \<Rightarrow> (Returns (JString message), w'))))"

text \<open>
  \<^verbatim>\<open>external_apis_dict_override !== null ? ... : ...\<close>, where the default of the
  parameter turns \<^verbatim>\<open>undefined\<close> into \<^verbatim>\<open>null\<close>.
\<close>

definition external_apis_argument :: "executor \<Rightarrow> js_value \<Rightarrow> js_value js_result" where
  "external_apis_argument ex external_apis_dict_override =
     (if \<not> nullish external_apis_dict_override then Inr external_apis_dict_override
      else (case host_api_execution_dict_getter ex of
              None \<Rightarrow> Inr (JObject [])
            | Some r \<Rightarrow> r))"

text \<open>
  The last \<^verbatim>\<open>catch\<close>. Its log line reads \<^verbatim>\<open>exec_error.stack\<close>, which throws
  when the value caught is \<^verbatim>\<open>null\<close> or \<^verbatim>\<open>undefined\<close>, and then calls
  \<^verbatim>\<open>code_string.substring\<close>, which only a string has; the \<^verbatim>\<open>return\<close> reads
  \<^verbatim>\<open>exec_error.message\<close>.
\<close>

definition exec_error_message :: "thrown \<Rightarrow> string js_result" where
  "exec_error_message exec_error =
     (case exec_error of
        ErrorObject message \<Rightarrow> Inr message
      | Thrown v \<Rightarrow>
          (case get_prop v ''stack'' of
             Inl e \<Rightarrow> Inl e
           | Inr stack \<Rightarrow> Inr (js_to_string (read_prop v ''message''))))"

definition exec_error_result :: "string \<Rightarrow> js_value \<Rightarrow> thrown \<Rightarrow> js_value completion" where
  "exec_error_result function_name code_string exec_error =
     (case exec_error_message exec_error of
        Inl e \<Rightarrow> Raises e
      | Inr message \<Rightarrow>
          if is_string code_string then
            Returns (JString (''Error: Failed to execute dynamic JS function '' @ function_name
              @ ''. Details: '' @ message))
          else Raises ''code_string.substring is not a function'')"

text \<open>What follows \<^verbatim>\<open>await script.runInContext(context)\<close> when the promise fulfils.\<close>

definition coerce_result :: "string \<Rightarrow> js_value \<Rightarrow> js_value" where
  "coerce_result function_name result =
     (if typeof result \<noteq> ''string'' then
        (case JSON_stringify result of
           Inr text \<Rightarrow> js_optional text
         | Inl e \<Rightarrow>
             JString (''Error: Dynamic function '' @ function_name
               @ '' returned a complex object that could not be serialized. Original type: ''
               @ typeof result))
      else result)"

text \<open>
  The \<^verbatim>\<open>try\<close> block that runs the stored code. The options object of
  \<^verbatim>\<open>new vm.Script\<close> carries \<^verbatim>\<open>timeout: 15000\<close>; the constructor has no such
  option, \<^verbatim>\<open>runInContext\<close> is called with the context alone, and the
  \<^verbatim>\<open>await\<close> has no deadline of its own. Running the code leaves the store as it is.
\<close>

definition run_in_sandbox ::
  "runtime \<Rightarrow> string \<Rightarrow> js_value \<Rightarrow> js_value \<Rightarrow> js_value \<Rightarrow> js_value completion" where
  "run_in_sandbox rt function_name code_string params_for_function external_apis =
     (let wrappedCode = template (wrapped_code_lines (js_to_string code_string) function_name)
      in case vm_compile rt wrappedCode of
           Some m \<Rightarrow> exec_error_result function_name code_string (ErrorObject m)
         | None \<Rightarrow>
             (case vm_run rt wrappedCode
                     (sandbox function_name params_for_function external_apis) of
                RunThrows m \<Rightarrow> exec_error_result function_name code_string m
              | Rejected m \<Rightarrow> exec_error_result function_name code_string m
              | NeverSettles \<Rightarrow> Hangs
              | Fulfilled result \<Rightarrow> Returns (coerce_result function_name result)))"

definition not_found_message :: "string \<Rightarrow> string" where
  "not_found_message function_name =
     ''Error: JS Function '' @ [CHR 0x27] @ function_name @ [CHR 0x27]
       @ '' not found or has no code.''"

definition execute_dynamic_function ::
  "executor \<Rightarrow> runtime \<Rightarrow> world \<Rightarrow> string \<Rightarrow> js_value \<Rightarrow> js_value
     \<Rightarrow> js_value completion \<times> world" where
  "execute_dynamic_function ex rt w function_name params_for_function
       external_apis_dict_override =
     (case log_params params_for_function of
        Inl e \<Rightarrow> (Raises e, w)
      | Inr logged \<Rightarrow>
          if function_name = FUNCTION_CREATION_TOOL_NAME then
            execute_creation_tool ex rt w function_name params_for_function
          else
            (let func_def = get_function_definition_js rt w function_name in
             if \<not> truthy func_def \<or> \<not> truthy (read_prop func_def ''code_string'') then
               (Returns (JString (not_found_message function_name)), w)
             else
               (case external_apis_argument ex external_apis_dict_override of
                  Inl e \<Rightarrow> (Raises e, w)
                | Inr external_apis \<Rightarrow>
                    (run_in_sandbox rt function_name (read_prop func_def ''code_string'')
                       params_for_function external_apis, w))))"


section \<open>Notions the properties speak of\<close>

subsection \<open>JSON data\<close>

text \<open>
  The values that \<^verbatim>\<open>JSON.stringify\<close> writes in full and the JSON grammar reads back:
  \<^verbatim>\<open>null\<close>, booleans, numbers, strings, and arrays and objects of such values, where
  the keys of an object differ from each other and none is made of digits only.
\<close>

fun json_data :: "js_value \<Rightarrow> bool"
and json_data_list :: "js_value list \<Rightarrow> bool"
and json_data_members :: "(string \<times> js_value) list \<Rightarrow> bool"
where
  "json_data JUndefined = False"
| "json_data JNull = True"
| "json_data (JBool b) = True"
| "json_data (JNumber n) = True"
| "json_data (JBigInt n) = False"
| "json_data (JString s) = True"
| "json_data (JFunction src) = False"
| "json_data (JArray xs) = json_data_list xs"
| "json_data (JObject ps) = (plain_keys ps \<and> json_data_members ps)"
| "json_data_list [] = True"
| "json_data_list (x # xs) = (json_data x \<and> json_data_list xs)"
| "json_data_members [] = True"
| "json_data_members (p # ps) = (json_data (snd p) \<and> json_data_members ps)"

text \<open>The depth that reading a value back takes.\<close>

fun cost :: "js_value \<Rightarrow> nat"
and cost_elems :: "js_value list \<Rightarrow> nat"
and cost_members :: "(string \<times> js_value) list \<Rightarrow> nat"
where
  "cost (JArray xs) = Suc (cost_elems xs)"
| "cost (JObject ps) = Suc (cost_members ps)"
| "cost JUndefined = 1"
| "cost JNull = 1"
| "cost (JBool b) = 1"
| "cost (JNumber n) = 1"
| "cost (JBigInt n) = 1"
| "cost (JString s) = 1"
| "cost (JFunction src) = 1"
| "cost_elems [] = 0"
| "cost_elems (x # xs) = Suc (max (cost x) (cost_elems xs))"
| "cost_members [] = 0"
| "cost_members (p # ps) = Suc (max (cost (snd p)) (cost_members ps))"

text \<open>
  Where the text of a value may end: before a separator, a closing bracket or white
  space. A text of white space, and a text that starts as a value does.
\<close>

definition value_end :: "string \<Rightarrow> bool" where
  "value_end rest \<longleftrightarrow>
     rest = [] \<or> hd rest \<in> set [CHR '','', CHR '']'', CHR ''}''] \<or> json_ws (hd rest)"

definition white :: "string \<Rightarrow> bool" where
  "white s \<longleftrightarrow> list_all json_ws s"

definition starts_value :: "string \<Rightarrow> bool" where
  "starts_value t \<longleftrightarrow>
     t \<noteq> [] \<and> \<not> json_ws (hd t) \<and> hd t \<notin> set [CHR '','', CHR '']'', CHR ''}'']"

text \<open>The line break and indentation that \<^verbatim>\<open>JSON.stringify\<close> puts before a part.\<close>

definition line_break :: "string \<Rightarrow> string \<Rightarrow> string" where
  "line_break gap ind = (if gap = [] then [] else CHR 0x0A # ind)"

text \<open>
  The grammar reads back the text of a value, of the elements of an array and of the
  members of an object, whatever white space precedes it and whatever follows it.
\<close>

definition reads_value :: "string \<Rightarrow> string \<Rightarrow> js_value \<Rightarrow> bool" where
  "reads_value gap ind v \<longleftrightarrow>
     (\<exists>t. json_value gap ind v = Inr (Some t) \<and> starts_value t
        \<and> (\<forall>n pre rest. cost v \<le> n \<longrightarrow> white pre \<longrightarrow> value_end rest
              \<longrightarrow> parse_value n (pre @ t @ rest) = Some (v, rest)))"

definition reads_elems :: "string \<Rightarrow> string \<Rightarrow> js_value list \<Rightarrow> bool" where
  "reads_elems gap ind xs \<longleftrightarrow>
     (\<exists>parts. json_elems gap ind xs = Inr parts \<and> (xs = [] \<longrightarrow> parts = [])
        \<and> (xs \<noteq> [] \<longrightarrow> parts \<noteq> []
              \<and> starts_value (intercalate (CHR '','' # line_break gap ind) parts)
              \<and> (\<forall>n pre close rest. cost_elems xs \<le> n \<longrightarrow> white pre \<longrightarrow> white close
                    \<longrightarrow> parse_elems n (pre @ intercalate (CHR '','' # line_break gap ind) parts
                          @ close @ CHR '']'' # rest) = Some (xs, rest))))"

definition reads_members :: "string \<Rightarrow> string \<Rightarrow> (string \<times> js_value) list \<Rightarrow> bool" where
  "reads_members gap ind ps \<longleftrightarrow>
     (\<exists>parts. json_members gap ind ps = Inr parts \<and> (ps = [] \<longrightarrow> parts = [])
        \<and> (ps \<noteq> [] \<longrightarrow> parts \<noteq> []
              \<and> starts_value (intercalate (CHR '','' # line_break gap ind) parts)
              \<and> (\<forall>n pre close rest. cost_members ps \<le> n \<longrightarrow> white pre \<longrightarrow> white close
                    \<longrightarrow> parse_members n (pre @ intercalate (CHR '','' # line_break gap ind) parts
                          @ close @ CHR ''}'' # rest) = Some (ps, rest))))"


text \<open>The text of the file that \<^verbatim>\<open>write_record\<close> writes for a record.\<close>

definition record_text :: "js_value \<Rightarrow> string" where
  "record_text data = (case JSON_stringify_2 data of Inr (Some text) \<Rightarrow> text | _ \<Rightarrow> [])"

text \<open>
  What the validation in the loop says about a raw reply of the language model, and the
  condition that no reply the model can give passes it.
\<close>

definition validation_error :: "runtime \<Rightarrow> js_value \<Rightarrow> string \<Rightarrow> string option" where
  "validation_error rt name raw =
     vm_compile rt (template (syntax_check_lines (sanitize (trim raw)) (js_to_string name)))"

definition every_candidate_fails :: "runtime \<Rightarrow> js_value \<Rightarrow> bool" where
  "every_candidate_fails rt name \<longleftrightarrow>
     (\<forall>n prompt raw. llm rt n prompt = LLMContent (Some raw) \<longrightarrow> trim raw \<noteq> []
        \<longrightarrow> validation_error rt name raw \<noteq> None)"

text \<open>
  What a failed request leaves behind: the value of \<^verbatim>\<open>generated_code_string\<close>,
  which a throw leaves as it was, and the message of \<^verbatim>\<open>last_error\<close>. \<open>None\<close>:
  the reply is a candidate.
\<close>

definition oracle_failure :: "js_value \<Rightarrow> llm_reply \<Rightarrow> (js_value \<times> string) option" where
  "oracle_failure current reply =
     (case reply of
        LLMFails e \<Rightarrow> Some (current, e)
      | LLMContent None \<Rightarrow> Some (JUndefined, ''LLM returned empty code string.'')
      | LLMContent (Some raw) \<Rightarrow>
          if trim raw = [] then Some (JString [], ''LLM returned empty code string.'')
          else None)"

text \<open>
  The record file of a function name is there, and reading it or parsing its content
  throws.
\<close>

definition unreadable_record :: "runtime \<Rightarrow> world \<Rightarrow> string \<Rightarrow> bool" where
  "unreadable_record rt w function_name \<longleftrightarrow>
     (case node_at rt (files w) (path_join (FUNCTION_CODE_DIR rt) (function_name @ ''.json'')) of
        None \<Rightarrow> False
      | Some Directory \<Rightarrow> True
      | Some (File content) \<Rightarrow>
          (case JSON_parse rt content of Inl e \<Rightarrow> True | Inr funcData \<Rightarrow> False))"



text \<open>
  The stores that the methods of the class produce from an empty directory, in any
  order and with any arguments.
\<close>

inductive reachable :: "runtime \<Rightarrow> world \<Rightarrow> bool" for rt :: runtime where
  initial: "reachable rt \<lparr>files = [], oracle_calls = []\<rparr>"
| created:
    "reachable rt w \<Longrightarrow>
     create_dynamic_function ex rt w name description schema host_provided = (message, w') \<Longrightarrow>
     reachable rt w'"
| predefined:
    "reachable rt w \<Longrightarrow> store_predefined_function_js rt w funcData = (result, w') \<Longrightarrow>
     reachable rt w'"
| executed:
    "reachable rt w \<Longrightarrow>
     execute_dynamic_function ex rt w function_name params override = (outcome, w') \<Longrightarrow>
     reachable rt w'"
| cleared: "reachable rt w \<Longrightarrow> reachable rt (clear_function_store_js rt w)"

text \<open>
  A directory entry that is a record file: it is named after the record, and its content
  is the serialization of a \<open>funcData_record\<close>, whose
  \<^verbatim>\<open>is_internal_special_function\<close> is \<^verbatim>\<open>false\<close>.
\<close>

definition record_file :: "string \<times> node \<Rightarrow> bool" where
  "record_file e \<longleftrightarrow>
     (\<exists>name description parameters_schema_json code_string written.
        fst e = js_to_string name @ ''.json''
        \<and> snd e = File written
        \<and> JSON_stringify_2 (funcData_record name description parameters_schema_json
              code_string) = Inr (Some written))"

definition store_invariant :: "world \<Rightarrow> bool" where
  "store_invariant w \<longleftrightarrow> distinct (map fst (files w)) \<and> list_all record_file (files w)"

section \<open>Sample installations\<close>

text \<open>
  An installation with one stored function: its record, a \<^verbatim>\<open>JSON.parse\<close> that
  rejects what is not JSON, a compiler that accepts every script, a run of the stored
  code that ends as given, and the directory with the one record file.
\<close>

definition installed_record :: "string \<Rightarrow> string \<Rightarrow> string \<Rightarrow> js_value" where
  "installed_record name description code =
     funcData_record (JString name) (JString description) (JString ''{}'') (JString code)"

definition rejected :: "string \<Rightarrow> js_value js_result" where
  "rejected text = Inl ''Unexpected token in JSON''"

definition installed_runtime :: "js_value \<Rightarrow> guest_outcome \<Rightarrow> runtime" where
  "installed_runtime data outcome =
     \<lparr>FUNCTION_CODE_DIR = ''/app/generated_functions_js'',
      other_files = (\<lambda>p. None),
      vm_compile = (\<lambda>source. None),
      vm_run = (\<lambda>source sb.
        if source = template (wrapped_code_lines (js_to_string (read_prop data ''code_string''))
                      (js_to_string (read_prop data ''name'')))
        then outcome else RunThrows (ErrorObject ''not run'')),
      JSON_parse_rest = rejected,
      llm = (\<lambda>n prompt. LLMFails ''Connection error.'')\<rparr>"

definition installed_world :: "string \<Rightarrow> js_value \<Rightarrow> world" where
  "installed_world name data =
     \<lparr>files = [(name @ ''.json'', File (record_text data))], oracle_calls = []\<rparr>"

text \<open>A function that greets.\<close>

definition sample_code :: string where
  "sample_code = ''async function greet(params) { return `hello`; }''"

definition sample_record :: js_value where
  "sample_record = installed_record ''greet'' ''Says hello'' sample_code"

definition sample_text :: string where
  "sample_text = record_text sample_record"

definition sample_runtime :: runtime where
  "sample_runtime = installed_runtime sample_record (Fulfilled (JString ''hello''))"

definition sample_world :: world where
  "sample_world = installed_world ''greet'' sample_record"

text \<open>A function whose promise never settles.\<close>

definition pending_code :: string where
  "pending_code = ''async function wait(params) { return await new Promise(() => {}); }''"

definition pending_record :: js_value where
  "pending_record = installed_record ''wait'' ''Waits'' pending_code"

text \<open>A function that returns nothing.\<close>

definition silent_code :: string where
  "silent_code = ''async function note(params) { console.log(params.line); }''"

definition silent_record :: js_value where
  "silent_record = installed_record ''note'' ''Logs a line'' silent_code"

text \<open>The schema of a function of two numbers, and a store that is empty.\<close>

definition add_schema :: js_value where
  "add_schema = JObject [(''type'', JString ''object''),
     (''properties'', JObject [(''a'', JObject [(''type'', JString ''number'')]),
                               (''b'', JObject [(''type'', JString ''number'')])]),
     (''required'', JArray [JString ''a'', JString ''b''])]"

definition empty_world :: world where
  "empty_world = \<lparr>files = [], oracle_calls = []\<rparr>"

text \<open>A function that repeats a text, with a schema that bounds a number.\<close>

definition repeat_schema :: js_value where
  "repeat_schema = JObject [(''type'', JString ''object''),
     (''properties'', JObject [(''text'', JObject [(''type'', JString ''string'')]),
        (''times'', JObject [(''type'', JString ''integer''), (''minimum'', JNumber 0)])]),
     (''required'', JArray [JString ''text'', JString ''times''])]"

definition repeat_code :: string where
  "repeat_code = ''async function repeat(params) { return params.text.repeat(params.times); }''"

text \<open>A store whose one record file is truncated.\<close>

definition broken_world :: world where
  \<open>broken_world = \<lparr>files = [(''greet.json'', File ''{ "name": "gre'')], oracle_calls = []\<rparr>\<close>

text \<open>A runtime whose compiler rejects every script.\<close>

definition failing_runtime :: runtime where
  "failing_runtime =
     \<lparr>FUNCTION_CODE_DIR = ''/app/generated_functions_js'',
      other_files = (\<lambda>p. None),
      vm_compile = (\<lambda>source. Some ''Unexpected end of input''),
      vm_run = (\<lambda>source sb. RunThrows (ErrorObject ''not run'')),
      JSON_parse_rest = rejected,
      llm = (\<lambda>n prompt. LLMContent (Some ''async function add(params) {''))\<rparr>"

text \<open>A runtime whose language model has no content in its first reply.\<close>

definition empty_first_runtime :: runtime where
  "empty_first_runtime =
     \<lparr>FUNCTION_CODE_DIR = ''/app/generated_functions_js'',
      other_files = (\<lambda>p. None),
      vm_compile = (\<lambda>source. None),
      vm_run = (\<lambda>source sb. Fulfilled (JString ''hello'')),
      JSON_parse_rest = rejected,
      llm = (\<lambda>n prompt. if n = 0 then LLMContent None else LLMContent (Some sample_code))\<rparr>"

text \<open>
  Code that parses and defines a function, though not one of the name asked for, and a
  runtime whose language model answers with it.
\<close>

definition other_code :: string where
  "other_code = ''async function other(params) { return 1; }''"

definition other_runtime :: runtime where
  "other_runtime =
     \<lparr>FUNCTION_CODE_DIR = ''/app/generated_functions_js'',
      other_files = (\<lambda>p. None),
      vm_compile = (\<lambda>source. None),
      vm_run = (\<lambda>source sb. Rejected (ErrorObject ''not run'')),
      JSON_parse_rest = rejected,
      llm = (\<lambda>n prompt. LLMContent (Some other_code))\<rparr>"

section \<open>Properties\<close>

subsection \<open>Numerals\<close>

lemma digit_char:
  assumes "n < 10"
  shows "digit (''0123456789'' ! n)"
    and "of_char (''0123456789'' ! n) - 48 = n"
    and "(''0123456789'' ! n = CHR ''0'') = (n = 0)"
proof -
  from assms have "n \<in> set [0, 1, 2, 3, 4, 5, 6, 7, 8, 9]"
    by simp arith
  then show "digit (''0123456789'' ! n)"
    and "of_char (''0123456789'' ! n) - 48 = n"
    and "(''0123456789'' ! n = CHR ''0'') = (n = 0)"
    by (auto simp: digit_def)
qed

lemma show_nat_digits: "list_all digit (show_nat n)"
proof (induction n rule: show_nat.induct)
  case (1 n)
  show ?case
  proof (cases "n < 10")
    case True
    then show ?thesis by (simp add: digit_char(1))
  next
    case False
    then have "show_nat n = show_nat (n div 10) @ [''0123456789'' ! (n mod 10)]"
      by simp
    with 1 False show ?thesis by (simp add: digit_char(1))
  qed
qed

lemma show_nat_nonempty: "show_nat n \<noteq> []"
  by (subst show_nat.simps) simp

lemma digits_value_show_nat: "digits_value (show_nat n) = n"
proof (induction n rule: show_nat.induct)
  case (1 n)
  show ?case
  proof (cases "n < 10")
    case True
    then show ?thesis by (simp add: digits_value_def digit_char(2))
  next
    case False
    then have eq: "show_nat n = show_nat (n div 10) @ [''0123456789'' ! (n mod 10)]"
      by simp
    from 1 False have "digits_value (show_nat (n div 10)) = n div 10" by simp
    then show ?thesis
      unfolding eq by (simp add: digits_value_def digit_char(2))
  qed
qed

lemma show_nat_hd: "0 < n \<Longrightarrow> hd (show_nat n) \<noteq> CHR ''0''"
proof (induction n rule: show_nat.induct)
  case (1 n)
  show ?case
  proof (cases "n < 10")
    case True
    have "show_nat n = [''0123456789'' ! n]"
      using True by simp
    with "1.prems" digit_char(3) [OF True] show ?thesis
      by (simp del: show_nat.simps)
  next
    case False
    then have eq: "show_nat n = show_nat (n div 10) @ [''0123456789'' ! (n mod 10)]"
      by simp
    from False have "0 < n div 10" by simp
    with 1 False have "hd (show_nat (n div 10)) \<noteq> CHR ''0''" by simp
    then show ?thesis
      unfolding eq by (simp add: show_nat_nonempty)
  qed
qed

lemma show_nat_leading: "1 < length (show_nat n) \<Longrightarrow> hd (show_nat n) \<noteq> CHR ''0''"
proof (cases "n = 0")
  case True
  assume "1 < length (show_nat n)"
  with True show ?thesis by simp
next
  case False
  then show ?thesis by (simp add: show_nat_hd del: show_nat.simps)
qed

lemma value_end_not_digit: "value_end rest \<Longrightarrow> rest = [] \<or> \<not> digit (hd rest)"
  by (auto simp: value_end_def digit_def json_ws_def)

lemma value_end_not_fraction: "value_end rest \<Longrightarrow> \<not> (rest \<noteq> [] \<and> hd rest \<in> set ''.eE'')"
  by (auto simp: value_end_def json_ws_def)

lemma digits_then_rest:
  assumes "list_all digit ds" and "rest = [] \<or> \<not> digit (hd rest)"
  shows "takeWhile digit (ds @ rest) = ds" and "dropWhile digit (ds @ rest) = rest"
proof -
  from assms(2) have "takeWhile digit rest = []" "dropWhile digit rest = rest"
    by (cases rest; simp)+
  with assms(1) show "takeWhile digit (ds @ rest) = ds" "dropWhile digit (ds @ rest) = rest"
    by (simp_all add: list_all_iff takeWhile_append2 dropWhile_append2)
qed

lemma digit_not_minus: "digit c \<Longrightarrow> c \<noteq> CHR ''-''"
  by (auto simp: digit_def)

lemma show_nat_not_minus: "hd (show_nat n) \<noteq> CHR ''-''"
  using show_nat_digits [of n] show_nat_nonempty [of n]
  by (cases "show_nat n") (auto simp: digit_not_minus simp del: show_nat.simps)

lemma parse_number_plain:
  assumes "list_all digit ds" and "ds \<noteq> []"
      and "\<not> (1 < length ds \<and> hd ds = CHR ''0'')" and "value_end rest"
      and "int (digits_value ds) < 2147483648"
  shows "parse_number (ds @ rest) = Some (JNumber (word_of_int (int (digits_value ds))), rest)"
proof -
  have ds: "takeWhile digit (ds @ rest) = ds" "dropWhile digit (ds @ rest) = rest"
    using digits_then_rest [OF assms(1) value_end_not_digit [OF assms(4)]] by simp_all
  have "hd ds \<noteq> CHR ''-''"
    using assms(1,2) by (cases ds) (auto simp: digit_not_minus)
  then have nm: "\<not> (ds @ rest \<noteq> [] \<and> hd (ds @ rest) = CHR ''-'')"
    using assms(2) by simp
  show ?thesis
    unfolding parse_number_def Let_def
    using nm ds assms(2,3,5) value_end_not_fraction [OF assms(4)]
    by (simp only: if_False if_True simp_thms not_le [symmetric])
qed

lemma parse_number_minus:
  assumes "list_all digit ds" and "ds \<noteq> []"
      and "\<not> (1 < length ds \<and> hd ds = CHR ''0'')" and "value_end rest"
      and "0 < digits_value ds" and "int (digits_value ds) \<le> 2147483648"
  shows "parse_number (CHR ''-'' # ds @ rest) =
           Some (JNumber (word_of_int (- int (digits_value ds))), rest)"
proof -
  have ds: "takeWhile digit (ds @ rest) = ds" "dropWhile digit (ds @ rest) = rest"
    using digits_then_rest [OF assms(1) value_end_not_digit [OF assms(4)]] by simp_all
  show ?thesis
    unfolding parse_number_def Let_def
    using ds assms(2,3,5,6) value_end_not_fraction [OF assms(4)]
    by (simp only: list.sel if_False if_True simp_thms not_less [symmetric]) simp
qed

lemma parse_number_show_int:
  fixes w :: "32 word"
  assumes "value_end rest"
  shows "parse_number (show_int (sint w) @ rest) = Some (JNumber w, rest)"
proof -
  have lower: "- 2147483648 \<le> sint w"
    using sint_ge [of w] by simp
  have upper: "sint w < 2147483648"
    using sint_lt [of w] by simp
  have inv: "word_of_int (sint w) = w"
    by simp
  show ?thesis
  proof (cases "sint w < 0")
    case True
    let ?n = "nat (- sint w)"
    have shown: "show_int (sint w) = CHR ''-'' # show_nat ?n"
      using True by (simp add: show_int_def del: show_nat.simps)
    have val: "int (digits_value (show_nat ?n)) = - sint w"
      using True by (simp add: digits_value_show_nat del: show_nat.simps)
    have pos: "0 < digits_value (show_nat ?n)"
      using True by (simp add: digits_value_show_nat del: show_nat.simps)
    have le: "int (digits_value (show_nat ?n)) \<le> 2147483648"
      using lower val by linarith
    have lead: "\<not> (1 < length (show_nat ?n) \<and> hd (show_nat ?n) = CHR ''0'')"
      using show_nat_leading [of ?n] by blast
    have "parse_number (CHR ''-'' # show_nat ?n @ rest) =
           Some (JNumber (word_of_int (- int (digits_value (show_nat ?n)))), rest)"
      by (rule parse_number_minus [OF show_nat_digits show_nat_nonempty lead assms pos le])
    then show ?thesis
      unfolding shown val by (simp only: append_Cons minus_minus inv)
  next
    case False
    let ?n = "nat (sint w)"
    have shown: "show_int (sint w) = show_nat ?n"
      using False by (simp add: show_int_def del: show_nat.simps)
    have val: "int (digits_value (show_nat ?n)) = sint w"
      using False by (simp add: digits_value_show_nat del: show_nat.simps)
    have lt: "int (digits_value (show_nat ?n)) < 2147483648"
      using upper val by linarith
    have lead: "\<not> (1 < length (show_nat ?n) \<and> hd (show_nat ?n) = CHR ''0'')"
      using show_nat_leading [of ?n] by blast
    have "parse_number (show_nat ?n @ rest) =
           Some (JNumber (word_of_int (int (digits_value (show_nat ?n)))), rest)"
      by (rule parse_number_plain [OF show_nat_digits show_nat_nonempty lead assms lt])
    then show ?thesis
      unfolding shown val by (simp only: inv)
  qed
qed

subsection \<open>Strings\<close>

lemma hex_value_hex_digit: "m < 16 \<Longrightarrow> hex_value (hex_digit m) = Some m"
proof -
  assume "m < 16"
  then have "m \<in> set [0, 1, 2, 3, 4, 5, 6, 7, 8, 9, 10, 11, 12, 13, 14, 15]"
    by simp arith
  then show ?thesis
    by (auto simp: hex_value_def hex_digit_def digit_def)
qed

lemma parse_escaped_char:
  "parse_string_chars (json_escape_char c @ tail) = cons_char c (parse_string_chars tail)"
proof -
  let ?n = "of_char c :: nat"
  consider (quote) "c = CHR 0x22" | (backslash) "c = CHR 0x5C" | (b) "c = CHR 0x08"
    | (t) "c = CHR 0x09" | (n) "c = CHR 0x0A" | (f) "c = CHR 0x0C" | (r) "c = CHR 0x0D"
    | (control) "c \<noteq> CHR 0x22" "c \<noteq> CHR 0x5C" "c \<noteq> CHR 0x08" "c \<noteq> CHR 0x09" "c \<noteq> CHR 0x0A"
        "c \<noteq> CHR 0x0C" "c \<noteq> CHR 0x0D" "?n < 32"
    | (raw) "c \<noteq> CHR 0x22" "c \<noteq> CHR 0x5C" "c \<noteq> CHR 0x08" "c \<noteq> CHR 0x09" "c \<noteq> CHR 0x0A"
        "c \<noteq> CHR 0x0C" "c \<noteq> CHR 0x0D" "\<not> ?n < 32"
    by blast
  then show ?thesis
  proof cases
    case quote
    then show ?thesis by (simp add: json_escape_char_def unescape_def)
  next
    case backslash
    then show ?thesis by (simp add: json_escape_char_def unescape_def)
  next
    case b
    then show ?thesis by (simp add: json_escape_char_def unescape_def)
  next
    case t
    then show ?thesis by (simp add: json_escape_char_def unescape_def)
  next
    case n
    then show ?thesis by (simp add: json_escape_char_def unescape_def)
  next
    case f
    then show ?thesis by (simp add: json_escape_char_def unescape_def)
  next
    case r
    then show ?thesis by (simp add: json_escape_char_def unescape_def)
  next
    case control
    have esc: "json_escape_char c =
        [CHR 0x5C, CHR ''u'', CHR ''0'', CHR ''0'', hex_digit (?n div 16), hex_digit (?n mod 16)]"
      using control by (simp add: json_escape_char_def)
    have hi: "hex_value (hex_digit (?n div 16)) = Some (?n div 16)"
      using control(8) by (intro hex_value_hex_digit) simp
    have lo: "hex_value (hex_digit (?n mod 16)) = Some (?n mod 16)"
      by (intro hex_value_hex_digit) simp
    have "char_of (16 * (?n div 16) + ?n mod 16) = c"
      by simp
    then show ?thesis
      unfolding esc by (simp add: hi lo)
  next
    case raw
    then show ?thesis by (simp add: json_escape_char_def)
  qed
qed

lemma parse_escaped_string:
  "parse_string_chars (concat (map json_escape_char s) @ CHR 0x22 # rest) = Some (s, rest)"
  by (induction s) (simp_all add: parse_escaped_char cons_char_def)

lemma parse_json_quote:
  "json_quote s @ rest = CHR 0x22 # concat (map json_escape_char s) @ CHR 0x22 # rest"
  by (simp add: json_quote_def)

subsection \<open>Steps of the parser\<close>

lemma skip_ws_white: "white pre \<Longrightarrow> \<not> json_ws c \<Longrightarrow> skip_ws (pre @ c # cs) = c # cs"
  by (induction pre) (simp_all add: skip_ws_def white_def)

lemma skip_ws_starts: "white pre \<Longrightarrow> starts_value t \<Longrightarrow> skip_ws (pre @ t @ rest) = t @ rest"
  by (cases t) (simp_all add: starts_value_def skip_ws_white)

lemma white_Nil [simp]: "white []"
  by (simp add: white_def)

lemma white_append [simp]: "white (a @ b) \<longleftrightarrow> white a \<and> white b"
  by (simp add: white_def)

lemma white_space [simp]: "white '' ''"
  by (simp add: white_def json_ws_def)

lemma white_newline [simp]: "white (CHR 0x0A # s) \<longleftrightarrow> white s"
  by (simp add: white_def json_ws_def)

lemma value_end_close: "white close \<Longrightarrow> value_end (close @ CHR '']'' # rest)"
  by (cases close) (simp_all add: value_end_def white_def)

lemma value_end_close_brace: "white close \<Longrightarrow> value_end (close @ CHR ''}'' # rest)"
  by (cases close) (simp_all add: value_end_def white_def)

lemma value_end_comma: "value_end (CHR '','' # rest)"
  by (simp add: value_end_def)

lemma parse_value_null:
  "white pre \<Longrightarrow> parse_value (Suc m) (pre @ ''null'' @ rest) = Some (JNull, rest)"
  by (simp add: skip_ws_white json_ws_def)

lemma parse_value_true:
  "white pre \<Longrightarrow> parse_value (Suc m) (pre @ ''true'' @ rest) = Some (JBool True, rest)"
  by (simp add: skip_ws_white json_ws_def)

lemma parse_value_false:
  "white pre \<Longrightarrow> parse_value (Suc m) (pre @ ''false'' @ rest) = Some (JBool False, rest)"
  by (simp add: skip_ws_white json_ws_def)

lemma parse_value_string:
  "white pre \<Longrightarrow> parse_value (Suc m) (pre @ json_quote s @ rest) = Some (JString s, rest)"
  by (simp add: parse_json_quote skip_ws_white json_ws_def parse_escaped_string)

lemma show_int_start:
  "show_int i \<noteq> [] \<and> (hd (show_int i) = CHR ''-'' \<or> digit (hd (show_int i)))"
  using show_nat_digits [of "nat i"] show_nat_nonempty [of "nat i"]
  by (cases "show_nat (nat i)") (auto simp: show_int_def simp del: show_nat.simps)

lemma number_start:
  assumes "c = CHR ''-'' \<or> digit c"
  shows "\<not> json_ws c" and "c \<noteq> CHR 0x22" and "c \<noteq> CHR ''[''" and "c \<noteq> CHR ''{''"
    and "c \<noteq> CHR ''n''" and "c \<noteq> CHR ''t''" and "c \<noteq> CHR ''f''"
    and "c \<noteq> CHR '',''" and "c \<noteq> CHR '']''" and "c \<noteq> CHR ''}''"
  using assms by (auto simp: digit_def json_ws_def)

lemma parse_value_number:
  fixes w :: "32 word"
  assumes "white pre" and "value_end rest"
  shows "parse_value (Suc m) (pre @ show_int (sint w) @ rest) = Some (JNumber w, rest)"
proof -
  obtain c cs where shown: "show_int (sint w) = c # cs" and c: "c = CHR ''-'' \<or> digit c"
    using show_int_start [of "sint w"] by (cases "show_int (sint w)") auto
  have skip: "skip_ws (pre @ (c # cs) @ rest) = c # cs @ rest"
    using skip_ws_white [OF assms(1) number_start(1) [OF c]] by simp
  have "parse_number (c # cs @ rest) = Some (JNumber w, rest)"
    using parse_number_show_int [OF assms(2), of w] shown by simp
  then show ?thesis
    unfolding shown using skip number_start [OF c]
    by simp
qed

lemma starts_value_number: "starts_value (show_int i)"
  using show_int_start [of i] number_start [of "hd (show_int i)"]
  by (auto simp: starts_value_def)

lemma starts_value_quote: "starts_value (json_quote s)"
  by (simp add: starts_value_def json_quote_def json_ws_def)

lemma parse_value_empty_array:
  "white pre \<Longrightarrow> parse_value (Suc m) (pre @ ''[]'' @ rest) = Some (JArray [], rest)"
  by (simp add: skip_ws_white json_ws_def skip_ws_white [of "[]", simplified])

lemma parse_value_empty_object:
  "white pre \<Longrightarrow> parse_value (Suc m) (pre @ ''{}'' @ rest) = Some (JObject [], rest)"
  by (simp add: skip_ws_white json_ws_def skip_ws_white [of "[]", simplified])

lemma take1_starts: "starts_value t \<Longrightarrow> take 1 (t @ rest) \<noteq> '']'' \<and> take 1 (t @ rest) \<noteq> ''}''"
  by (cases t) (auto simp: starts_value_def)

lemma parse_value_array:
  assumes "white pre" and "white pre'" and "starts_value body"
      and "parse_elems m (pre' @ body @ tail) = Some (xs, rest)"
  shows "parse_value (Suc m) (pre @ CHR ''['' # pre' @ body @ tail) = Some (JArray xs, rest)"
proof -
  have 1: "skip_ws (pre @ CHR ''['' # pre' @ body @ tail) = CHR ''['' # pre' @ body @ tail"
    by (rule skip_ws_white [OF assms(1)]) (simp add: json_ws_def)
  have 2: "skip_ws (pre' @ body @ tail) = body @ tail"
    by (rule skip_ws_starts [OF assms(2,3)])
  show ?thesis
    using 1 2 take1_starts [OF assms(3), of tail] assms(4) by simp
qed

lemma parse_value_object:
  assumes "white pre" and "white pre'" and "starts_value body"
      and "parse_members m (pre' @ body @ tail) = Some (ps, rest)" and "plain_keys ps"
  shows "parse_value (Suc m) (pre @ CHR ''{'' # pre' @ body @ tail) = Some (JObject ps, rest)"
proof -
  have 1: "skip_ws (pre @ CHR ''{'' # pre' @ body @ tail) = CHR ''{'' # pre' @ body @ tail"
    by (rule skip_ws_white [OF assms(1)]) (simp add: json_ws_def)
  have 2: "skip_ws (pre' @ body @ tail) = body @ tail"
    by (rule skip_ws_starts [OF assms(2,3)])
  show ?thesis
    using 1 2 take1_starts [OF assms(3), of tail] assms(4,5) by simp
qed

lemma parse_elems_last:
  assumes "parse_value m cs = Some (x, close @ CHR '']'' # rest)" and "white close"
  shows "parse_elems (Suc m) cs = Some ([x], rest)"
proof -
  have "skip_ws (close @ CHR '']'' # rest) = CHR '']'' # rest"
    by (rule skip_ws_white [OF assms(2)]) (simp add: json_ws_def)
  with assms(1) show ?thesis by simp
qed

lemma parse_elems_more:
  assumes "parse_value m cs = Some (x, CHR '','' # r)"
      and "parse_elems m r = Some (xs, rest)"
  shows "parse_elems (Suc m) cs = Some (x # xs, rest)"
proof -
  have "skip_ws (CHR '','' # r) = CHR '','' # r"
    by (simp add: skip_ws_def json_ws_def)
  with assms show ?thesis by simp
qed

lemma parse_members_key:
  assumes "white pre"
  shows "skip_ws (pre @ json_quote k @ CHR '':'' # r) = json_quote k @ CHR '':'' # r"
    and "parse_string_chars (drop 1 (json_quote k @ CHR '':'' # r)) = Some (k, CHR '':'' # r)"
    and "skip_ws (CHR '':'' # r) = CHR '':'' # r"
proof -
  show "skip_ws (pre @ json_quote k @ CHR '':'' # r) = json_quote k @ CHR '':'' # r"
    using skip_ws_starts [OF assms starts_value_quote, of k "CHR '':'' # r"] by simp
  show "parse_string_chars (drop 1 (json_quote k @ CHR '':'' # r)) = Some (k, CHR '':'' # r)"
    by (simp add: json_quote_def parse_escaped_string)
  show "skip_ws (CHR '':'' # r) = CHR '':'' # r"
    by (simp add: skip_ws_def json_ws_def)
qed

lemma parse_members_last:
  assumes "white pre" and "parse_value m r = Some (x, close @ CHR ''}'' # rest)" and "white close"
  shows "parse_members (Suc m) (pre @ json_quote k @ CHR '':'' # r) = Some ([(k, x)], rest)"
proof -
  have "skip_ws (close @ CHR ''}'' # rest) = CHR ''}'' # rest"
    by (rule skip_ws_white [OF assms(3)]) (simp add: json_ws_def)
  moreover have "take 1 (json_quote k @ CHR '':'' # r) = [CHR 0x22]"
    by (simp add: json_quote_def)
  ultimately show ?thesis
    using assms(2) parse_members_key [OF assms(1)] by simp
qed

lemma parse_members_more:
  assumes "white pre" and "parse_value m r = Some (x, CHR '','' # r')"
      and "parse_members m r' = Some (ps, rest)"
  shows "parse_members (Suc m) (pre @ json_quote k @ CHR '':'' # r) = Some ((k, x) # ps, rest)"
proof -
  have "skip_ws (CHR '','' # r') = CHR '','' # r'"
    by (simp add: skip_ws_def json_ws_def)
  moreover have "take 1 (json_quote k @ CHR '':'' # r) = [CHR 0x22]"
    by (simp add: json_quote_def)
  ultimately show ?thesis
    using assms(2,3) parse_members_key [OF assms(1)] by simp
qed

subsection \<open>Reading back what \<^verbatim>\<open>JSON.stringify\<close> wrote\<close>

lemma white_line_break: "white ind \<Longrightarrow> white (line_break gap ind)"
  by (simp add: line_break_def)

lemma json_wrap_parts:
  "parts \<noteq> [] \<Longrightarrow>
     json_wrap opn cls gap stepback parts =
       opn @ line_break gap (stepback @ gap)
         @ intercalate (CHR '','' # line_break gap (stepback @ gap)) parts
         @ line_break gap stepback @ cls"
  by (simp add: json_wrap_def line_break_def)

lemma starts_value_append: "starts_value a \<Longrightarrow> starts_value (a @ b)"
  by (cases a) (simp_all add: starts_value_def)

lemma intercalate_Cons:
  "intercalate sep (a # bs) = (if bs = [] then a else a @ sep @ intercalate sep bs)"
  by (cases bs) simp_all

lemma starts_value_intercalate: "starts_value a \<Longrightarrow> starts_value (intercalate sep (a # bs))"
  by (simp add: intercalate_Cons starts_value_append)

lemma starts_value_literal:
  "starts_value ''null''" "starts_value ''true''" "starts_value ''false''"
  "starts_value (CHR ''['' # s)" "starts_value (CHR ''{'' # s)"
  by (simp_all add: starts_value_def json_ws_def)

lemma fuel_Suc: "cost v \<le> n \<Longrightarrow> \<exists>m. n = Suc m"
  by (cases v; cases n) simp_all

lemma reads_all:
  "white gap \<Longrightarrow> white ind \<Longrightarrow> json_data v \<Longrightarrow> reads_value gap ind v"
  "white gap \<Longrightarrow> white ind \<Longrightarrow> json_data_list xs \<Longrightarrow> reads_elems gap ind xs"
  "white gap \<Longrightarrow> white ind \<Longrightarrow> json_data_members ps \<Longrightarrow> reads_members gap ind ps"
proof (induction gap ind v and gap ind xs and gap ind ps
    rule: json_value_json_elems_json_members.induct)
  case (1 gap ind)
  then show ?case by simp
next
  case (2 gap ind)
  have "parse_value n (pre @ ''null'' @ rest) = Some (JNull, rest)"
    if "cost JNull \<le> n" "white pre" for n pre rest
    using that fuel_Suc [OF that(1)] parse_value_null [OF that(2)] by auto
  then show ?case
    unfolding reads_value_def by (simp add: starts_value_literal)
next
  case (3 gap ind b)
  have "parse_value n (pre @ (if b then ''true'' else ''false'') @ rest) = Some (JBool b, rest)"
    if "cost (JBool b) \<le> n" "white pre" for n pre rest
    using that fuel_Suc [OF that(1)] parse_value_true [OF that(2)] parse_value_false [OF that(2)]
    by auto
  then show ?case
    unfolding reads_value_def by (simp add: starts_value_literal)
next
  case (4 gap ind w)
  have "parse_value n (pre @ show_int (sint w) @ rest) = Some (JNumber w, rest)"
    if "cost (JNumber w) \<le> n" "white pre" "value_end rest" for n pre rest
    using that fuel_Suc [OF that(1)] parse_value_number [OF that(2,3)] by auto
  then show ?case
    unfolding reads_value_def by (simp add: starts_value_number)
next
  case (5 gap ind n)
  then show ?case by simp
next
  case (6 gap ind s)
  have "parse_value n (pre @ json_quote s @ rest) = Some (JString s, rest)"
    if "cost (JString s) \<le> n" "white pre" for n pre rest
    using that fuel_Suc [OF that(1)] parse_value_string [OF that(2)] by auto
  then show ?case
    unfolding reads_value_def by (simp add: starts_value_quote)
next
  case (7 gap ind src)
  then show ?case by simp
next
  case (8 gap ind xs)
  from 8 have elems: "reads_elems gap (ind @ gap) xs"
    by simp
  show ?case
  proof (cases "xs = []")
    case True
    have "parse_value n (pre @ ''[]'' @ rest) = Some (JArray [], rest)"
      if "cost (JArray []) \<le> n" "white pre" for n pre rest
      using that fuel_Suc [OF that(1)] parse_value_empty_array [OF that(2)] by auto
    then show ?thesis
      unfolding reads_value_def using True
      by (simp add: json_wrap_def starts_value_literal)
  next
    case False
    let ?sep = "CHR '','' # line_break gap (ind @ gap)"
    from elems False obtain parts where
      parts: "json_elems gap (ind @ gap) xs = Inr parts" "parts \<noteq> []"
      and start: "starts_value (intercalate ?sep parts)"
      and parse: "\<And>n pre close rest. cost_elems xs \<le> n \<Longrightarrow> white pre \<Longrightarrow> white close \<Longrightarrow>
          parse_elems n (pre @ intercalate ?sep parts @ close @ CHR '']'' # rest) = Some (xs, rest)"
      unfolding reads_elems_def by blast
    let ?t = "json_wrap ''['' '']'' gap ind parts"
    have shown: "?t = CHR ''['' # line_break gap (ind @ gap) @ intercalate ?sep parts
        @ line_break gap ind @ '']''"
      using json_wrap_parts [OF parts(2), of "''[''" "'']''" gap ind] by simp
    have printed: "json_value gap ind (JArray xs) = Inr (Some ?t)"
      using parts(1) by simp
    have read: "parse_value n (pre @ ?t @ rest) = Some (JArray xs, rest)"
      if "cost (JArray xs) \<le> n" "white pre" for n pre rest
    proof -
      from that(1) obtain m where n: "n = Suc m" and m: "cost_elems xs \<le> m"
        by (cases n) simp_all
      have inner: "parse_elems m (line_break gap (ind @ gap) @ intercalate ?sep parts
          @ (line_break gap ind @ CHR '']'' # rest)) = Some (xs, rest)"
        using parse [OF m, of "line_break gap (ind @ gap)" "line_break gap ind" rest] 8(2,3)
        by (simp add: white_line_break)
      show ?thesis
        unfolding n shown
        using parse_value_array [OF that(2) _ start inner] 8(2,3)
        by (simp add: white_line_break)
    qed
    show ?thesis
      unfolding reads_value_def
      using printed read shown by (auto simp: starts_value_literal)
  qed
next
  case (9 gap ind ps)
  from 9 have members: "reads_members gap (ind @ gap) ps" and keys: "plain_keys ps"
    by simp_all
  show ?case
  proof (cases "ps = []")
    case True
    have "parse_value n (pre @ ''{}'' @ rest) = Some (JObject [], rest)"
      if "cost (JObject []) \<le> n" "white pre" for n pre rest
      using that fuel_Suc [OF that(1)] parse_value_empty_object [OF that(2)] by auto
    then show ?thesis
      unfolding reads_value_def using True
      by (simp add: json_wrap_def starts_value_literal)
  next
    case False
    let ?sep = "CHR '','' # line_break gap (ind @ gap)"
    from members False obtain parts where
      parts: "json_members gap (ind @ gap) ps = Inr parts" "parts \<noteq> []"
      and start: "starts_value (intercalate ?sep parts)"
      and parse: "\<And>n pre close rest. cost_members ps \<le> n \<Longrightarrow> white pre \<Longrightarrow> white close \<Longrightarrow>
          parse_members n (pre @ intercalate ?sep parts @ close @ CHR ''}'' # rest) = Some (ps, rest)"
      unfolding reads_members_def by blast
    let ?t = "json_wrap ''{'' ''}'' gap ind parts"
    have shown: "?t = CHR ''{'' # line_break gap (ind @ gap) @ intercalate ?sep parts
        @ line_break gap ind @ ''}''"
      using json_wrap_parts [OF parts(2), of "''{''" "''}''" gap ind] by simp
    have printed: "json_value gap ind (JObject ps) = Inr (Some ?t)"
      using parts(1) by simp
    have read: "parse_value n (pre @ ?t @ rest) = Some (JObject ps, rest)"
      if "cost (JObject ps) \<le> n" "white pre" for n pre rest
    proof -
      from that(1) obtain m where n: "n = Suc m" and m: "cost_members ps \<le> m"
        by (cases n) simp_all
      have inner: "parse_members m (line_break gap (ind @ gap) @ intercalate ?sep parts
          @ (line_break gap ind @ CHR ''}'' # rest)) = Some (ps, rest)"
        using parse [OF m, of "line_break gap (ind @ gap)" "line_break gap ind" rest] 9(2,3)
        by (simp add: white_line_break)
      show ?thesis
        unfolding n shown
        using parse_value_object [OF that(2) _ start inner keys] 9(2,3)
        by (simp add: white_line_break)
    qed
    show ?thesis
      unfolding reads_value_def
      using printed read shown by (auto simp: starts_value_literal)
  qed
next
  case (10 gap ind)
  show ?case by (simp add: reads_elems_def)
next
  case (11 gap ind x xs)
  let ?sep = "CHR '','' # line_break gap ind"
  from 11 have "reads_value gap ind x" by simp
  then obtain t where t: "json_value gap ind x = Inr (Some t)" and st: "starts_value t"
    and px: "\<And>n pre rest. cost x \<le> n \<Longrightarrow> white pre \<Longrightarrow> value_end rest \<Longrightarrow>
          parse_value n (pre @ t @ rest) = Some (x, rest)"
    unfolding reads_value_def by blast
  from 11 t have "reads_elems gap ind xs" by simp
  then obtain parts where parts: "json_elems gap ind xs = Inr parts"
    and empty: "xs = [] \<Longrightarrow> parts = []"
    and more: "xs \<noteq> [] \<Longrightarrow> parts \<noteq> []"
    and pxs: "\<And>n pre close rest. xs \<noteq> [] \<Longrightarrow> cost_elems xs \<le> n \<Longrightarrow> white pre \<Longrightarrow> white close \<Longrightarrow>
          parse_elems n (pre @ intercalate ?sep parts @ close @ CHR '']'' # rest) = Some (xs, rest)"
    unfolding reads_elems_def by blast
  have printed: "json_elems gap ind (x # xs) = Inr (t # parts)"
    using t parts by simp
  have read: "parse_elems n (pre @ intercalate ?sep (t # parts) @ close @ CHR '']'' # rest)
      = Some (x # xs, rest)"
    if "cost_elems (x # xs) \<le> n" "white pre" "white close" for n pre close rest
  proof -
    from that(1) obtain m where n: "n = Suc m" and mx: "cost x \<le> m" and mxs: "cost_elems xs \<le> m"
      by (cases n) simp_all
    show ?thesis
    proof (cases "xs = []")
      case True
      have "parse_value m (pre @ t @ (close @ CHR '']'' # rest)) = Some (x, close @ CHR '']'' # rest)"
        by (rule px [OF mx that(2) value_end_close [OF that(3)]])
      from parse_elems_last [OF this that(3)] show ?thesis
        unfolding n using True empty by simp
    next
      case False
      let ?tail = "line_break gap ind @ intercalate ?sep parts @ close @ CHR '']'' # rest"
      have 1: "parse_value m (pre @ t @ (CHR '','' # ?tail)) = Some (x, CHR '','' # ?tail)"
        by (rule px [OF mx that(2) value_end_comma])
      have 2: "parse_elems m ?tail = Some (xs, rest)"
        using pxs [OF False mxs _ that(3), of "line_break gap ind" rest] 11(4)
        by (simp add: white_line_break)
      from parse_elems_more [OF 1 2] show ?thesis
        unfolding n using more [OF False] by (simp add: intercalate_Cons)
    qed
  qed
  show ?case
    unfolding reads_elems_def
    using printed read starts_value_intercalate [OF st, of ?sep parts] by auto
next
  case (12 gap ind)
  show ?case by (simp add: reads_members_def)
next
  case (13 gap ind p ps)
  let ?sep = "CHR '','' # line_break gap ind"
  let ?sp = "if gap = [] then [] else '' ''"
  from 13 have "reads_value gap ind (snd p)" by simp
  then obtain t where t: "json_value gap ind (snd p) = Inr (Some t)" and st: "starts_value t"
    and px: "\<And>n pre rest. cost (snd p) \<le> n \<Longrightarrow> white pre \<Longrightarrow> value_end rest \<Longrightarrow>
          parse_value n (pre @ t @ rest) = Some (snd p, rest)"
    unfolding reads_value_def by blast
  from 13 t have "reads_members gap ind ps" by simp
  then obtain parts where parts: "json_members gap ind ps = Inr parts"
    and empty: "ps = [] \<Longrightarrow> parts = []"
    and more: "ps \<noteq> [] \<Longrightarrow> parts \<noteq> []"
    and pps: "\<And>n pre close rest. ps \<noteq> [] \<Longrightarrow> cost_members ps \<le> n \<Longrightarrow> white pre \<Longrightarrow> white close \<Longrightarrow>
          parse_members n (pre @ intercalate ?sep parts @ close @ CHR ''}'' # rest) = Some (ps, rest)"
    unfolding reads_members_def by blast
  let ?part = "json_quote (fst p) @ CHR '':'' # ?sp @ t"
  have printed: "json_members gap ind (p # ps) = Inr (?part # parts)"
    using t parts by simp
  have sp: "white ?sp" by simp
  have read: "parse_members n (pre @ intercalate ?sep (?part # parts) @ close @ CHR ''}'' # rest)
      = Some (p # ps, rest)"
    if "cost_members (p # ps) \<le> n" "white pre" "white close" for n pre close rest
  proof -
    from that(1) obtain m where n: "n = Suc m" and mx: "cost (snd p) \<le> m"
      and mps: "cost_members ps \<le> m"
      by (cases n) simp_all
    show ?thesis
    proof (cases "ps = []")
      case True
      have "parse_value m (?sp @ t @ (close @ CHR ''}'' # rest)) = Some (snd p, close @ CHR ''}'' # rest)"
        by (rule px [OF mx sp value_end_close_brace [OF that(3)]])
      from parse_members_last [OF that(2) this that(3), of "fst p"] show ?thesis
        unfolding n using True empty by simp
    next
      case False
      let ?tail = "line_break gap ind @ intercalate ?sep parts @ close @ CHR ''}'' # rest"
      have 1: "parse_value m (?sp @ t @ (CHR '','' # ?tail)) = Some (snd p, CHR '','' # ?tail)"
        by (rule px [OF mx sp value_end_comma])
      have 2: "parse_members m ?tail = Some (ps, rest)"
        using pps [OF False mps _ that(3), of "line_break gap ind" rest] 13(4)
        by (simp add: white_line_break)
      from parse_members_more [OF that(2) 1 2, of "fst p"] show ?thesis
        unfolding n using more [OF False] by (simp add: intercalate_Cons)
    qed
  qed
  have "starts_value ?part"
    by (rule starts_value_append [OF starts_value_quote])
  from starts_value_intercalate [OF this, of ?sep parts]
  show ?case
    unfolding reads_members_def
    using printed read by auto
qed

subsection \<open>The fuel is enough\<close>

lemma length_intercalate:
  "sep \<noteq> [] \<Longrightarrow> length (concat parts) + length parts \<le> Suc (length (intercalate sep parts))"
proof (induction sep parts rule: intercalate.induct)
  case (3 sep x y ys)
  then show ?case by (cases sep) simp_all
qed simp_all

lemma length_json_wrap:
  "length (concat parts) + length parts < length (json_wrap opn cls gap stepback parts)"
  if "opn \<noteq> []" "cls \<noteq> []"
proof -
  have "length (concat parts) + length parts \<le> Suc (length (intercalate sep parts))"
    if "sep \<noteq> []" for sep
    by (rule length_intercalate [OF that])
  from this [of "'',''"] this [of "'','' @ [CHR 0x0A] @ stepback @ gap"] that
  show ?thesis
    by (cases opn; cases cls) (auto simp: json_wrap_def)
qed

lemma cost_bound:
  "json_data v \<Longrightarrow> json_value gap ind v = Inr (Some t) \<Longrightarrow> cost v \<le> length t"
  "json_data_list xs \<Longrightarrow> json_elems gap ind xs = Inr parts \<Longrightarrow>
     cost_elems xs \<le> length (concat parts) + length parts"
  "json_data_members ps \<Longrightarrow> json_members gap ind ps = Inr parts \<Longrightarrow>
     cost_members ps \<le> length (concat parts) + length parts"
proof (induction gap ind v and gap ind xs and gap ind ps arbitrary: t and parts and parts
    rule: json_value_json_elems_json_members.induct)
  case (4 gap ind w)
  then show ?case
    using show_int_start [of "sint w"] by (cases "show_int (sint w)") auto
next
  case (6 gap ind s)
  then show ?case by (auto simp: json_quote_def)
next
  case (8 gap ind xs)
  from 8(3) obtain parts where parts: "json_elems gap (ind @ gap) xs = Inr parts"
    and t: "t = json_wrap ''['' '']'' gap ind parts"
    by (auto split: sum.splits)
  from 8(1) [OF _ parts] 8(2) have "cost_elems xs \<le> length (concat parts) + length parts"
    by simp
  with length_json_wrap [of "''[''" "'']''" parts gap ind] show ?case
    unfolding t by simp
next
  case (9 gap ind ps)
  from 9(3) obtain parts where parts: "json_members gap (ind @ gap) ps = Inr parts"
    and t: "t = json_wrap ''{'' ''}'' gap ind parts"
    by (auto split: sum.splits)
  from 9(1) [OF _ parts] 9(2) have "cost_members ps \<le> length (concat parts) + length parts"
    by simp
  with length_json_wrap [of "''{''" "''}''" parts gap ind] show ?case
    unfolding t by simp
next
  case (11 gap ind x xs)
  from 11(3) have data: "json_data x" "json_data_list xs" by simp_all
  from 11(4) obtain s ss where s: "json_value gap ind x = Inr s"
    and ss: "json_elems gap ind xs = Inr ss"
    and parts: "parts = (case s of None \<Rightarrow> ''null'' | Some t \<Rightarrow> t) # ss"
    by (auto split: sum.splits)
  have "cost x \<le> length (case s of None \<Rightarrow> ''null'' | Some t \<Rightarrow> t)"
  proof (cases s)
    case None
    with s data(1) show ?thesis by (cases x) (auto split: sum.splits)
  next
    case (Some t)
    with s 11(1) [OF data(1)] show ?thesis by simp
  qed
  moreover from 11(2) [OF s data(2) ss]
  have "cost_elems xs \<le> length (concat ss) + length ss" .
  ultimately show ?case
    unfolding parts by simp
next
  case (13 gap ind p ps)
  from 13(3) have data: "json_data (snd p)" "json_data_members ps" by simp_all
  from 13(4) obtain s ss where s: "json_value gap ind (snd p) = Inr s"
    and ss: "json_members gap ind ps = Inr ss"
    and parts: "parts = (case s of None \<Rightarrow> ss
        | Some t \<Rightarrow> (json_quote (fst p) @ '':'' @ (if gap = [] then [] else '' '') @ t) # ss)"
    by (auto split: sum.splits)
  from 13(2) [OF s data(2) ss]
  have rest: "cost_members ps \<le> length (concat ss) + length ss" .
  show ?case
  proof (cases s)
    case None
    with s data(1) show ?thesis by (cases "snd p") (auto split: sum.splits)
  next
    case (Some t)
    with s 13(1) [OF data(1)] have "cost (snd p) \<le> length t" by simp
    with rest show ?thesis
      unfolding parts Some by simp
  qed
qed simp_all

subsection \<open>The reference reads back what \<^verbatim>\<open>JSON.stringify\<close> wrote\<close>

lemma reference_reads_json_value:
  assumes "white gap" and "json_data v"
  shows "\<exists>t. json_value gap [] v = Inr (Some t) \<and> JSON_reference t = Some v"
proof -
  from reads_all(1) [OF assms(1) white_Nil assms(2)]
  obtain t where t: "json_value gap [] v = Inr (Some t)"
    and read: "\<And>n pre rest. cost v \<le> n \<Longrightarrow> white pre \<Longrightarrow> value_end rest \<Longrightarrow>
          parse_value n (pre @ t @ rest) = Some (v, rest)"
    unfolding reads_value_def by blast
  have "cost v \<le> length t"
    by (rule cost_bound(1) [OF assms(2) t])
  from read [OF this white_Nil, of "[]"]
  have "parse_value (length t) t = Some (v, [])"
    by (simp add: value_end_def)
  then have "JSON_reference t = Some v"
    by (simp add: JSON_reference_def skip_ws_def)
  with t show ?thesis by blast
qed

lemma reference_reads_stringify:
  assumes "json_data v"
  shows "\<exists>t. JSON_stringify v = Inr (Some t) \<and> JSON_reference t = Some v"
  using reference_reads_json_value [OF white_Nil assms] by (simp add: JSON_stringify_def)

lemma reference_reads_stringify_2:
  assumes "json_data v"
  shows "\<exists>t. JSON_stringify_2 v = Inr (Some t) \<and> JSON_reference t = Some v"
proof -
  have "white ''  ''" by (simp add: white_def json_ws_def)
  from reference_reads_json_value [OF this assms] show ?thesis
    by (simp add: JSON_stringify_2_def)
qed

subsection \<open>Paths\<close>

lemma split_slash_plain: "CHR ''/'' \<notin> set s \<Longrightarrow> split_slash s = [s]"
  by (induction s) auto

lemma path_join_plain:
  assumes "CHR ''/'' \<notin> set entry" and "entry \<noteq> []" and "entry \<noteq> ''.''" and "entry \<noteq> ''..''"
  shows "path_join dir entry = normalize_segments (split_slash dir) @ [entry]"
  using assms by (simp add: path_join_def normalize_segments_def split_slash_plain path_step_def)

lemma node_at_entry:
  "CHR ''/'' \<notin> set name \<Longrightarrow>
     node_at rt fs (path_join (FUNCTION_CODE_DIR rt) (name @ ''.json'')) =
       map_of fs (name @ ''.json'')"
  by (simp add: path_join_plain node_at_def)

lemma identifier_part_no_slash: "identifier_part c \<Longrightarrow> c \<noteq> CHR ''/''"
  by (auto simp: identifier_part_def)

lemma identifier_start_no_slash: "identifier_start c \<Longrightarrow> c \<noteq> CHR ''/''"
  by (auto simp: identifier_start_def)

lemma identifier_no_slash: "valid_identifier name \<Longrightarrow> CHR ''/'' \<notin> set name"
  by (cases name)
     (auto simp: list_all_iff dest: identifier_part_no_slash identifier_start_no_slash)

subsection \<open>The sample installation\<close>

lemma reads_empty_object: "JSON_reference ''{}'' = Some (JObject [])"
  by (simp add: JSON_reference_def skip_ws_def json_ws_def)

lemma json_data_funcData_record:
  "json_data (funcData_record (JString name) (JString description) (JString schema_json)
     (JString code))"
  by (simp add: funcData_record_def plain_keys_def digit_key_def digit_def)

lemma reads_funcData_record:
  "JSON_reference (record_text (funcData_record (JString name) (JString description)
     (JString schema_json) (JString code))) =
   Some (funcData_record (JString name) (JString description) (JString schema_json)
     (JString code))"
  using reference_reads_stringify_2 [OF json_data_funcData_record
      [of name description schema_json code]]
  by (auto simp: record_text_def)

lemma installed_definition:
  assumes "CHR ''/'' \<notin> set name"
  shows "get_function_definition_js
     (installed_runtime (installed_record name description code) outcome)
     (installed_world name (installed_record name description code)) name =
   JObject [(''name'', JString name), (''description'', JString description),
     (''parameters_schema_json'', JString ''{}''), (''code_string'', JString code),
     (''is_internal_special_function'', JBool False), (''parameters_schema'', JObject [])]"
proof -
  have "JSON_parse rt (record_text (installed_record name description code)) =
      Inr (installed_record name description code)" for rt
    by (simp add: JSON_parse_def installed_record_def reads_funcData_record)
  moreover have "JSON_parse rt ''{}'' = Inr (JObject [])" for rt
    by (simp add: JSON_parse_def reads_empty_object)
  ultimately show ?thesis
    by (simp add: get_function_definition_js_def installed_world_def fs_existsSync_def
        fs_readFileSync_def node_at_entry [OF assms] get_prop_def nullish_def)
       (simp add: installed_record_def funcData_record_def)
qed

lemma installed_run:
  "vm_run (installed_runtime (installed_record name description code) outcome)
     (template (wrapped_code_lines code name)) sb = outcome"
  by (simp add: installed_runtime_def installed_record_def funcData_record_def)

lemma sample_record_eq:
  "sample_record = funcData_record (JString ''greet'') (JString ''Says hello'') (JString ''{}'')
     (JString sample_code)"
  by (simp add: sample_record_def installed_record_def)

lemma sample_world_eq:
  "sample_world = \<lparr>files = [(''greet.json'', File sample_text)], oracle_calls = []\<rparr>"
  by (simp add: sample_world_def installed_world_def sample_text_def)

lemma sample_runtime_compiles: "vm_compile sample_runtime source = None"
  by (simp add: sample_runtime_def installed_runtime_def)

lemma sample_runtime_rejects: "JSON_parse_rest sample_runtime text = Inl ''Unexpected token in JSON''"
  by (simp add: sample_runtime_def installed_runtime_def rejected_def)

subsection \<open>Awaiting the stored function\<close>

text \<open>
  C1. The claim is that a stored function whose callable never resolves is aborted when
  the timeout elapses and reported as a timeout. The method does otherwise: when the
  parameters serialize, the name is not the reserved one, the record holds code that
  compiles, and the promise of the run never settles, \<^verbatim>\<open>execute_dynamic_function\<close>
  never returns.
\<close>

theorem pending_callable_is_awaited_forever:
  assumes "log_params params_for_function = Inr logged"
      and "function_name \<noteq> FUNCTION_CREATION_TOOL_NAME"
      and "truthy (get_function_definition_js rt w function_name)"
      and "read_prop (get_function_definition_js rt w function_name) ''code_string'' = JString code"
      and "code \<noteq> []"
      and "external_apis_argument ex external_apis_dict_override = Inr external_apis"
      and "vm_compile rt (template (wrapped_code_lines code function_name)) = None"
      and "vm_run rt (template (wrapped_code_lines code function_name))
             (sandbox function_name params_for_function external_apis) = NeverSettles"
  shows "execute_dynamic_function ex rt w function_name params_for_function
           external_apis_dict_override = (Hangs, w)"
  using assms by (simp add: execute_dynamic_function_def run_in_sandbox_def)

theorem pending_callable_is_awaited_forever_witness:
  "execute_dynamic_function DynamicExecutorJS (installed_runtime pending_record NeverSettles)
     (installed_world ''wait'' pending_record) ''wait'' (JObject []) JNull =
   (Hangs, installed_world ''wait'' pending_record)"
proof -
  have 1: "log_params (JObject []) = Inr ''{}''"
    by (simp add: log_params_def JSON_stringify_def json_wrap_def substring0_def)
  have 2: "''wait'' \<noteq> FUNCTION_CREATION_TOOL_NAME"
    by (simp add: FUNCTION_CREATION_TOOL_NAME_def)
  have 3: "truthy (get_function_definition_js (installed_runtime pending_record NeverSettles)
             (installed_world ''wait'' pending_record) ''wait'')"
    by (simp add: pending_record_def installed_definition)
  have 4: "read_prop (get_function_definition_js (installed_runtime pending_record NeverSettles)
             (installed_world ''wait'' pending_record) ''wait'') ''code_string'' =
           JString pending_code"
    by (simp add: pending_record_def installed_definition)
  have 5: "pending_code \<noteq> []"
    by (simp add: pending_code_def)
  have 6: "external_apis_argument DynamicExecutorJS JNull = Inr (JObject [])"
    by (simp add: external_apis_argument_def DynamicExecutorJS_def nullish_def)
  have 7: "vm_compile (installed_runtime pending_record NeverSettles)
             (template (wrapped_code_lines pending_code ''wait'')) = None"
    by (simp add: installed_runtime_def)
  have 8: "vm_run (installed_runtime pending_record NeverSettles)
             (template (wrapped_code_lines pending_code ''wait''))
             (sandbox ''wait'' (JObject []) (JObject [])) = NeverSettles"
    by (simp add: pending_record_def installed_run)
  show ?thesis
    by (rule pending_callable_is_awaited_forever [OF 1 2 3 4 5 6 7 8])
qed

subsection \<open>The repair loop\<close>

declare repair_loop.simps [simp del]

lemma attempt_body_files:
  "attempt_body ex rt name d sc hp attempt s w = (b, s', w') \<Longrightarrow> files w' = files w"
  by (auto simp: attempt_body_def Let_def
      split: sum.splits llm_reply.splits option.splits if_splits)

lemma attempt_body_calls:
  "attempt_body ex rt name d sc hp attempt s w = (b, s', w') \<Longrightarrow>
     oracle_calls w' = oracle_calls w \<or> (\<exists>p. oracle_calls w' = oracle_calls w @ [p])"
  by (auto simp: attempt_body_def Let_def
      split: sum.splits llm_reply.splits option.splits if_splits)

lemma attempt_body_fails:
  assumes "every_candidate_fails rt name"
      and "attempt_body ex rt name d sc hp attempt s w = (b, s', w')"
  shows "\<not> b \<and> last_error s' \<noteq> None"
proof -
  have v: "\<And>n prompt raw. llm rt n prompt = LLMContent (Some raw) \<Longrightarrow> trim raw \<noteq> [] \<Longrightarrow>
      vm_compile rt (template (syntax_check_lines (sanitize (trim raw)) (js_to_string name))) \<noteq> None"
    using assms(1) by (simp add: every_candidate_fails_def validation_error_def)
  show ?thesis
    using assms(2) v
    by (fastforce simp: attempt_body_def Let_def js_optional_def
        split: sum.splits llm_reply.splits option.splits if_splits)
qed

lemma repair_loop_step:
  assumes "attempt < MAX_SYNTAX_REPAIR_RETRIES ex + 1"
      and "attempt_body ex rt name d sc hp attempt s w = (b, s1, w1)"
  shows "repair_loop ex rt name d sc hp attempt s w =
           (if b then (s1, w1) else repair_loop ex rt name d sc hp (attempt + 1) s1 w1)"
  using assms by (simp add: repair_loop.simps [of ex rt name d sc hp attempt])

lemma repair_loop_done:
  "\<not> attempt < MAX_SYNTAX_REPAIR_RETRIES ex + 1 \<Longrightarrow>
     repair_loop ex rt name d sc hp attempt s w = (s, w)"
  by (simp add: repair_loop.simps)

lemma repair_loop_world:
  "repair_loop ex rt name d sc hp attempt s w = (s', w') \<Longrightarrow>
     files w' = files w
     \<and> (\<exists>sent. oracle_calls w' = oracle_calls w @ sent
            \<and> length sent \<le> MAX_SYNTAX_REPAIR_RETRIES ex + 1 - attempt)"
proof (induction ex rt name d sc hp attempt s w arbitrary: s' w' rule: repair_loop.induct)
  case (1 ex rt name d sc hp attempt s w)
  show ?case
  proof (cases "attempt < MAX_SYNTAX_REPAIR_RETRIES ex + 1")
    case False
    with "1.prems" show ?thesis by (simp add: repair_loop_done)
  next
    case True
    obtain b s1 w1 where body: "attempt_body ex rt name d sc hp attempt s w = (b, s1, w1)"
      by (cases "attempt_body ex rt name d sc hp attempt s w") auto
    have f1: "files w1 = files w"
      by (rule attempt_body_files [OF body])
    from attempt_body_calls [OF body]
    obtain one where c1: "oracle_calls w1 = oracle_calls w @ one" and l1: "length one \<le> 1"
      by (cases "oracle_calls w1 = oracle_calls w") auto
    show ?thesis
    proof (cases b)
      case True
      with \<open>attempt < MAX_SYNTAX_REPAIR_RETRIES ex + 1\<close> body "1.prems"
      have "w' = w1" by (simp add: repair_loop_step)
      with f1 c1 l1 \<open>attempt < MAX_SYNTAX_REPAIR_RETRIES ex + 1\<close> show ?thesis by auto
    next
      case False
      with \<open>attempt < MAX_SYNTAX_REPAIR_RETRIES ex + 1\<close> body "1.prems"
      have rest: "repair_loop ex rt name d sc hp (attempt + 1) s1 w1 = (s', w')"
        by (simp add: repair_loop_step)
      from "1.IH" [OF \<open>attempt < MAX_SYNTAX_REPAIR_RETRIES ex + 1\<close> body [symmetric] _ _ rest] False
      obtain sent where "files w' = files w1" "oracle_calls w' = oracle_calls w1 @ sent"
        "length sent \<le> MAX_SYNTAX_REPAIR_RETRIES ex + 1 - (attempt + 1)"
        by auto
      with f1 c1 l1 \<open>attempt < MAX_SYNTAX_REPAIR_RETRIES ex + 1\<close>
      have "files w' = files w" "oracle_calls w' = oracle_calls w @ (one @ sent)"
        "length (one @ sent) \<le> MAX_SYNTAX_REPAIR_RETRIES ex + 1 - attempt"
        by auto
      then show ?thesis by blast
    qed
  qed
qed

lemma repair_loop_exhausted:
  assumes "every_candidate_fails rt name"
  shows "repair_loop ex rt name d sc hp attempt s w = (s', w') \<Longrightarrow>
     attempt < MAX_SYNTAX_REPAIR_RETRIES ex + 1 \<or> last_error s \<noteq> None \<Longrightarrow>
     last_error s' \<noteq> None"
  using assms
proof (induction ex rt name d sc hp attempt s w arbitrary: s' w' rule: repair_loop.induct)
  case (1 ex rt name d sc hp attempt s w)
  show ?case
  proof (cases "attempt < MAX_SYNTAX_REPAIR_RETRIES ex + 1")
    case False
    with "1.prems" show ?thesis by (simp add: repair_loop_done)
  next
    case True
    obtain b s1 w1 where body: "attempt_body ex rt name d sc hp attempt s w = (b, s1, w1)"
      by (cases "attempt_body ex rt name d sc hp attempt s w") auto
    from attempt_body_fails [OF "1.prems"(3) body]
    have nb: "\<not> b" and err: "last_error s1 \<noteq> None" by simp_all
    from "1.prems"(1) True body nb
    have rest: "repair_loop ex rt name d sc hp (attempt + 1) s1 w1 = (s', w')"
      by (simp add: repair_loop_step)
    from "1.IH" [OF True body [symmetric] _ _ rest _ "1.prems"(3)] nb err
    show ?thesis by auto
  qed
qed

text \<open>
  C5. With \<^verbatim>\<open>MAX_SYNTAX_REPAIR_RETRIES = 3\<close>, a definition request that passes the
  argument checks and whose every candidate fails validation sends at most four prompts
  to the language model, then returns the error that names the four attempts and the
  last error, and leaves the store as it was.
\<close>

theorem exhausted_repair_loop_reports_failure:
  assumes "MAX_SYNTAX_REPAIR_RETRIES ex = 3"
      and "truthy name" and "truthy description" and "truthy schema"
      and "valid_identifier (js_to_string name)"
      and "every_candidate_fails rt name"
      and "create_dynamic_function ex rt w name description schema hp = (message, w')"
  shows "(\<exists>m. message = ''Error: Failed to generate/validate JS code for '' @ js_to_string name
                 @ '' after 4 attempt(s). Last error: '' @ m)
         \<and> (\<exists>sent. oracle_calls w' = oracle_calls w @ sent \<and> length sent \<le> 4)
         \<and> files w' = files w"
proof -
  obtain s1 w1 where loop:
    "repair_loop ex rt name description schema hp 0 initial_attempt_state w = (s1, w1)"
    by (cases "repair_loop ex rt name description schema hp 0 initial_attempt_state w") auto
  from repair_loop_exhausted [OF assms(6) loop] assms(1)
  obtain m where m: "last_error s1 = Some m" by auto
  from repair_loop_world [OF loop] assms(1)
  have world: "files w1 = files w"
    "\<exists>sent. oracle_calls w1 = oracle_calls w @ sent \<and> length sent \<le> 4"
    by auto
  from assms(1-5) assms(7) loop m
  have "message = ''Error: Failed to generate/validate JS code for '' @ js_to_string name
                 @ '' after 4 attempt(s). Last error: '' @ m" and "w' = w1"
    by (simp_all add: create_dynamic_function_def)
  with world show ?thesis by blast
qed

theorem exhausted_repair_loop_reports_failure_witness:
  "(\<exists>m. fst (create_dynamic_function DynamicExecutorJS failing_runtime empty_world
            (JString ''add'') (JString ''Adds two numbers'') add_schema JUndefined) =
          ''Error: Failed to generate/validate JS code for add after 4 attempt(s). Last error: '' @ m)
   \<and> length (oracle_calls (snd (create_dynamic_function DynamicExecutorJS failing_runtime
         empty_world (JString ''add'') (JString ''Adds two numbers'') add_schema JUndefined))) \<le> 4
   \<and> files (snd (create_dynamic_function DynamicExecutorJS failing_runtime empty_world
         (JString ''add'') (JString ''Adds two numbers'') add_schema JUndefined)) = []"
proof -
  have 1: "MAX_SYNTAX_REPAIR_RETRIES DynamicExecutorJS = 3"
    by (simp add: DynamicExecutorJS_def)
  have 2: "truthy (JString ''add'')" "truthy (JString ''Adds two numbers'')" "truthy add_schema"
    by (simp_all add: add_schema_def)
  have 3: "valid_identifier (js_to_string (JString ''add''))"
    by (simp add: identifier_start_def identifier_part_def)
  have 4: "every_candidate_fails failing_runtime (JString ''add'')"
    by (simp add: every_candidate_fails_def validation_error_def failing_runtime_def)
  have 5: "create_dynamic_function DynamicExecutorJS failing_runtime empty_world
         (JString ''add'') (JString ''Adds two numbers'') add_schema JUndefined =
       (fst (create_dynamic_function DynamicExecutorJS failing_runtime empty_world
         (JString ''add'') (JString ''Adds two numbers'') add_schema JUndefined),
        snd (create_dynamic_function DynamicExecutorJS failing_runtime empty_world
         (JString ''add'') (JString ''Adds two numbers'') add_schema JUndefined))"
    by simp
  from exhausted_repair_loop_reports_failure [OF 1 2 3 4 5]
  show ?thesis by (auto simp: empty_world_def)
qed

subsection \<open>The prompt after a failed request\<close>

lemma synthesis_is_not_repair:
  "generateJSFunctionCreationPrompt name d sc a False previous e
     \<noteq> generateJSFunctionCreationPrompt name' d' sc' a' True previous' e'"
  by (simp add: generateJSFunctionCreationPrompt_def template_def synthesis_preamble_def
      repair_preamble_def split: sum.split)

lemma attempt_body_sends:
  assumes "api_description_argument ex hp = Inr a"
      and "generateJSFunctionCreationPrompt name d sc a (0 < attempt) (generated_code_string s)
             (error_message_argument (last_error s)) = Inr p"
      and "attempt_body ex rt name d sc hp attempt s w = (b, s', w')"
  shows "oracle_calls w' = oracle_calls w @ [p]"
  using assms
  by (auto simp: attempt_body_def Let_def split: llm_reply.splits option.splits if_splits)

lemma attempt_body_oracle_failure:
  assumes "api_description_argument ex hp = Inr a"
      and "generateJSFunctionCreationPrompt name d sc a (0 < attempt) (generated_code_string s)
             (error_message_argument (last_error s)) = Inr p0"
      and "oracle_failure (generated_code_string s) (llm rt (length (oracle_calls w)) p0) =
             Some (previous, message)"
      and "attempt_body ex rt name d sc hp attempt s w = (b, s1, w1)"
  shows "\<not> b \<and> generated_code_string s1 = previous \<and> last_error s1 = Some message
         \<and> oracle_calls w1 = oracle_calls w @ [p0]"
  using assms
  by (auto simp: attempt_body_def Let_def oracle_failure_def js_optional_def
      split: llm_reply.splits option.splits if_splits)

text \<open>
  C6, as the code has it. When a request of a run fails (it throws, or the reply has no
  content, or only white space) and the retry budget is not used up, the next attempt
  is issued with the repair prompt, which carries the message of the failure and what
  \<^verbatim>\<open>generated_code_string\<close> holds by then: the last raw reply, and before any
  candidate exists the empty string, or \<^verbatim>\<open>undefined\<close>, which the prompt prints as
  \<^verbatim>\<open>null\<close>. It is not the synthesis prompt of the first attempt. The failed request counts against the budget: after these two
  prompts the run sends at most \<^verbatim>\<open>MAX_SYNTAX_REPAIR_RETRIES - 1 - attempt\<close> more.
\<close>

theorem failed_call_is_followed_by_repair_prompt:
  assumes "attempt < MAX_SYNTAX_REPAIR_RETRIES ex"
      and "api_description_argument ex hp = Inr a"
      and "generateJSFunctionCreationPrompt name d sc a (0 < attempt) (generated_code_string s)
             (error_message_argument (last_error s)) = Inr p0"
      and "oracle_failure (generated_code_string s) (llm rt (length (oracle_calls w)) p0) =
             Some (previous, message)"
      and "repair_loop ex rt name d sc hp attempt s w = (s', w')"
  shows "\<exists>p1 later.
           generateJSFunctionCreationPrompt name d sc a True previous (JString message) = Inr p1
           \<and> generateJSFunctionCreationPrompt name d sc a False (JString []) JNull \<noteq> Inr p1
           \<and> oracle_calls w' = oracle_calls w @ p0 # p1 # later
           \<and> length later \<le> MAX_SYNTAX_REPAIR_RETRIES ex - 1 - attempt"
proof -
  obtain b s1 w1 where body0: "attempt_body ex rt name d sc hp attempt s w = (b, s1, w1)"
    by (cases "attempt_body ex rt name d sc hp attempt s w") auto
  from attempt_body_oracle_failure [OF assms(2) assms(3) assms(4) body0]
  have nb: "\<not> b" and prev: "generated_code_string s1 = previous"
    and err: "last_error s1 = Some message" and c1: "oracle_calls w1 = oracle_calls w @ [p0]"
    by simp_all
  have lt0: "attempt < MAX_SYNTAX_REPAIR_RETRIES ex + 1"
    using assms(1) by simp
  from repair_loop_step [OF lt0 body0] nb assms(5)
  have loop1: "repair_loop ex rt name d sc hp (attempt + 1) s1 w1 = (s', w')"
    by simp
  obtain p1 where
    p1: "generateJSFunctionCreationPrompt name d sc a True previous (JString message) = Inr p1"
    by (simp add: generateJSFunctionCreationPrompt_def)
  have differ: "generateJSFunctionCreationPrompt name d sc a False (JString []) JNull \<noteq> Inr p1"
    using synthesis_is_not_repair [of name d sc a "JString []" JNull name d sc a previous
        "JString message"] p1
    by simp
  obtain b2 s2 w2 where
    body1: "attempt_body ex rt name d sc hp (attempt + 1) s1 w1 = (b2, s2, w2)"
    by (cases "attempt_body ex rt name d sc hp (attempt + 1) s1 w1") auto
  from p1 prev err
  have p1': "generateJSFunctionCreationPrompt name d sc a (0 < attempt + 1)
               (generated_code_string s1) (error_message_argument (last_error s1)) = Inr p1"
    by (simp add: error_message_argument_def)
  from attempt_body_sends [OF assms(2) p1' body1]
  have c2: "oracle_calls w2 = oracle_calls w1 @ [p1]" .
  have lt1: "attempt + 1 < MAX_SYNTAX_REPAIR_RETRIES ex + 1"
    using assms(1) by simp
  have "\<exists>later. oracle_calls w' = oracle_calls w2 @ later
          \<and> length later \<le> MAX_SYNTAX_REPAIR_RETRIES ex - 1 - attempt"
  proof (cases b2)
    case True
    with loop1 repair_loop_step [OF lt1 body1] have "w' = w2"
      by simp
    then show ?thesis by simp
  next
    case False
    with loop1 repair_loop_step [OF lt1 body1]
    have "repair_loop ex rt name d sc hp (attempt + 1 + 1) s2 w2 = (s', w')"
      by simp
    from repair_loop_world [OF this] show ?thesis by auto
  qed
  with c1 c2 p1 differ show ?thesis by auto
qed

lemma greet_synthesis_prompt:
  "generateJSFunctionCreationPrompt (JString ''greet'') (JString ''Says hello'') (JObject [])
     (JString ''No host APIs provided.'') False (JString []) JNull =
   Inr (template (synthesis_preamble ''greet'' ''Says hello'' ''{}'' ''No host APIs provided.'')
        @ code_generation_rules ''greet'')"
  by (simp add: generateJSFunctionCreationPrompt_def JSON_stringify_2_def json_wrap_def
      render_optional_def js_or_def)

lemma default_api_description:
  "api_description_argument DynamicExecutorJS JUndefined = Inr (JString ''No host APIs provided.'')"
  by (simp add: api_description_argument_def DynamicExecutorJS_def)

theorem failed_call_is_followed_by_repair_prompt_witness:
  "\<exists>p1 later.
     generateJSFunctionCreationPrompt (JString ''greet'') (JString ''Says hello'') (JObject [])
       (JString ''No host APIs provided.'') True JUndefined
       (JString ''LLM returned empty code string.'') = Inr p1
     \<and> Inr (template (synthesis_preamble ''greet'' ''Says hello'' ''{}'' ''No host APIs provided.'')
              @ code_generation_rules ''greet'') \<noteq> (Inr p1 :: string js_result)
     \<and> oracle_calls (snd (repair_loop DynamicExecutorJS empty_first_runtime (JString ''greet'')
          (JString ''Says hello'') (JObject []) JUndefined 0 initial_attempt_state empty_world)) =
        (template (synthesis_preamble ''greet'' ''Says hello'' ''{}'' ''No host APIs provided.'')
           @ code_generation_rules ''greet'') # p1 # later
     \<and> length later \<le> 2"
proof -
  have 1: "0 < MAX_SYNTAX_REPAIR_RETRIES DynamicExecutorJS"
    by (simp add: DynamicExecutorJS_def)
  have 3: "generateJSFunctionCreationPrompt (JString ''greet'') (JString ''Says hello'')
             (JObject []) (JString ''No host APIs provided.'') (0 < (0::nat))
             (generated_code_string initial_attempt_state)
             (error_message_argument (last_error initial_attempt_state)) =
           Inr (template (synthesis_preamble ''greet'' ''Says hello'' ''{}''
                  ''No host APIs provided.'') @ code_generation_rules ''greet'')"
    using greet_synthesis_prompt
    by (simp add: initial_attempt_state_def error_message_argument_def)
  have 4: "oracle_failure (generated_code_string initial_attempt_state)
             (llm empty_first_runtime (length (oracle_calls empty_world))
             (template (synthesis_preamble ''greet'' ''Says hello'' ''{}'' ''No host APIs provided.'')
                @ code_generation_rules ''greet'')) =
           Some (JUndefined, ''LLM returned empty code string.'')"
    by (simp add: oracle_failure_def empty_first_runtime_def empty_world_def)
  have 5: "repair_loop DynamicExecutorJS empty_first_runtime (JString ''greet'')
          (JString ''Says hello'') (JObject []) JUndefined 0 initial_attempt_state empty_world =
        (fst (repair_loop DynamicExecutorJS empty_first_runtime (JString ''greet'')
          (JString ''Says hello'') (JObject []) JUndefined 0 initial_attempt_state empty_world),
         snd (repair_loop DynamicExecutorJS empty_first_runtime (JString ''greet'')
          (JString ''Says hello'') (JObject []) JUndefined 0 initial_attempt_state empty_world))"
    by simp
  from failed_call_is_followed_by_repair_prompt [OF 1 default_api_description 3 4 5]
  show ?thesis
    using greet_synthesis_prompt
    by (simp add: empty_world_def DynamicExecutorJS_def)
qed

text \<open>
  C6 as claimed, that the synthesis prompt is repeated after such a failure, does not
  hold: in the run below the model's first reply has no content, and the second prompt
  is the repair prompt, with \<^verbatim>\<open>null\<close> for the faulty code.
\<close>

theorem synthesis_prompt_is_not_repeated:
  "generateJSFunctionCreationPrompt (JString ''greet'') (JString ''Says hello'') (JObject [])
     (JString ''No host APIs provided.'') False (JString []) JNull =
     Inr (template (synthesis_preamble ''greet'' ''Says hello'' ''{}'' ''No host APIs provided.'')
        @ code_generation_rules ''greet'')
   \<and> llm empty_first_runtime 0
       (template (synthesis_preamble ''greet'' ''Says hello'' ''{}'' ''No host APIs provided.'')
        @ code_generation_rules ''greet'') = LLMContent None
   \<and> oracle_calls (snd (repair_loop DynamicExecutorJS empty_first_runtime (JString ''greet'')
        (JString ''Says hello'') (JObject []) JUndefined 0 initial_attempt_state empty_world)) =
      [(template (synthesis_preamble ''greet'' ''Says hello'' ''{}'' ''No host APIs provided.'')
        @ code_generation_rules ''greet''),
       (template (repair_preamble ''greet'' ''LLM returned empty code string.'' ''null'')
        @ code_generation_rules ''greet'')]
   \<and> (template (repair_preamble ''greet'' ''LLM returned empty code string.'' ''null'')
        @ code_generation_rules ''greet'')
       \<noteq> (template (synthesis_preamble ''greet'' ''Says hello'' ''{}'' ''No host APIs provided.'')
        @ code_generation_rules ''greet'')"
proof -
  let ?p0 = "template (synthesis_preamble ''greet'' ''Says hello'' ''{}'' ''No host APIs provided.'')
        @ code_generation_rules ''greet''"
  let ?p1 = "template (repair_preamble ''greet'' ''LLM returned empty code string.'' ''null'')
        @ code_generation_rules ''greet''"
  have r: "generateJSFunctionCreationPrompt (JString ''greet'') (JString ''Says hello'') (JObject [])
       (JString ''No host APIs provided.'') True JUndefined
       (JString ''LLM returned empty code string.'') = Inr ?p1"
    by (simp add: generateJSFunctionCreationPrompt_def default_null_def)
  have differ: "?p1 \<noteq> ?p0"
    using synthesis_is_not_repair [of "JString ''greet''" "JString ''Says hello''" "JObject []"
        "JString ''No host APIs provided.''" "JString []" JNull
        "JString ''greet''" "JString ''Says hello''" "JObject []"
        "JString ''No host APIs provided.''" JUndefined "JString ''LLM returned empty code string.''"]
    by (simp add: greet_synthesis_prompt r)
  have first: "llm empty_first_runtime 0 ?p0 = LLMContent None"
    by (simp add: empty_first_runtime_def)
  have nonempty: "truthy (JString (trim sample_code))"
    by (simp add: sample_code_def trim_def js_space_def)
  have body0: "attempt_body DynamicExecutorJS empty_first_runtime (JString ''greet'')
       (JString ''Says hello'') (JObject []) JUndefined 0 initial_attempt_state empty_world =
     (False, initial_attempt_state\<lparr>generated_code_string := JUndefined,
               last_error := Some ''LLM returned empty code string.''\<rparr>,
      empty_world\<lparr>oracle_calls := [?p0]\<rparr>)"
    by (simp add: attempt_body_def default_api_description greet_synthesis_prompt
        initial_attempt_state_def error_message_argument_def empty_world_def first
        js_optional_def)
  have second: "llm empty_first_runtime (Suc 0) ?p1 = LLMContent (Some sample_code)"
    by (simp add: empty_first_runtime_def)
  have body1: "\<exists>s2. attempt_body DynamicExecutorJS empty_first_runtime (JString ''greet'')
       (JString ''Says hello'') (JObject []) JUndefined 1
       (initial_attempt_state\<lparr>generated_code_string := JUndefined,
               last_error := Some ''LLM returned empty code string.''\<rparr>)
       (empty_world\<lparr>oracle_calls := [?p0]\<rparr>) =
     (True, s2, empty_world\<lparr>oracle_calls := [?p0, ?p1]\<rparr>)"
    using nonempty
    by (simp add: attempt_body_def default_api_description r
        initial_attempt_state_def error_message_argument_def empty_world_def second
        js_optional_def empty_first_runtime_def)
  then obtain s2 where body1': "attempt_body DynamicExecutorJS empty_first_runtime (JString ''greet'')
       (JString ''Says hello'') (JObject []) JUndefined 1
       (initial_attempt_state\<lparr>generated_code_string := JUndefined,
               last_error := Some ''LLM returned empty code string.''\<rparr>)
       (empty_world\<lparr>oracle_calls := [?p0]\<rparr>) =
     (True, s2, empty_world\<lparr>oracle_calls := [?p0, ?p1]\<rparr>)" ..
  have lt0: "0 < MAX_SYNTAX_REPAIR_RETRIES DynamicExecutorJS + 1"
    and lt1: "1 < MAX_SYNTAX_REPAIR_RETRIES DynamicExecutorJS + 1"
    by (simp_all add: DynamicExecutorJS_def)
  have "repair_loop DynamicExecutorJS empty_first_runtime (JString ''greet'')
          (JString ''Says hello'') (JObject []) JUndefined 0 initial_attempt_state empty_world =
        (s2, empty_world\<lparr>oracle_calls := [?p0, ?p1]\<rparr>)"
    using repair_loop_step [OF lt0 body0] repair_loop_step [OF lt1 body1'] by simp
  then have "oracle_calls (snd (repair_loop DynamicExecutorJS empty_first_runtime (JString ''greet'')
          (JString ''Says hello'') (JObject []) JUndefined 0 initial_attempt_state empty_world)) =
        [?p0, ?p1]"
    by simp
  with greet_synthesis_prompt first differ show ?thesis by simp
qed

subsection \<open>Validation\<close>

lemma stringify_funcData_record:
  "JSON_stringify_2 (funcData_record (JString name) (JString description)
     (JString schema_json) (JString code)) =
   Inr (Some (record_text (funcData_record (JString name) (JString description)
     (JString schema_json) (JString code))))"
  by (simp add: JSON_stringify_2_def funcData_record_def record_text_def)

lemma fs_write:
  assumes "map_of fs entry \<noteq> Some Directory"
  shows "fs_writeFileSync rt fs entry written = Inr (AList.update entry (File written) fs)"
  using assms by (auto simp: fs_writeFileSync_def split: option.splits node.splits)

lemma fs_read_written:
  assumes "CHR ''/'' \<notin> set name"
  shows "fs_existsSync rt (AList.update (name @ ''.json'') (File written) fs) (name @ ''.json'')"
    and "fs_readFileSync rt (AList.update (name @ ''.json'') (File written) fs) (name @ ''.json'')
           = Inr written"
  by (simp_all add: fs_existsSync_def fs_readFileSync_def node_at_entry [OF assms] update_conv')

lemma sanitize_other_code: "sanitize (trim other_code) = other_code"
  by (simp add: other_code_def sanitize_def trim_def js_space_def strip_fences_def
      startsWith_def endsWith_def)

lemma trim_other_code: "trim other_code = other_code"
  by (simp add: other_code_def trim_def js_space_def)

lemma other_code_nonempty: "other_code \<noteq> []"
  by (simp add: other_code_def)

text \<open>
  C2. The claim is that validation rejects a candidate that parses but defines no
  callable of the expected name. Validation is \<^verbatim>\<open>new vm.Script\<close> on a script that
  holds the candidate and the test \<^verbatim>\<open>typeof name === 'function'\<close>; the script is
  compiled and never run, so the test never takes place. Wherever the two scripts
  compile, code that defines only \<^verbatim>\<open>other\<close> is accepted and stored under the name
  \<^verbatim>\<open>wanted\<close>, by \<^verbatim>\<open>create_dynamic_function\<close> and by
  \<^verbatim>\<open>store_predefined_function_js\<close> alike.
\<close>

theorem validation_passes_code_without_the_function:
  assumes "vm_compile rt (template (syntax_check_lines other_code ''wanted'')) = None"
      and "vm_compile rt (template (syntax_check_predefined_lines other_code ''wanted'')) = None"
      and "api_description_argument ex host_provided = Inr api_description"
      and "generateJSFunctionCreationPrompt (JString ''wanted'') (JString ''What is wanted'')
             (JObject []) api_description False (JString []) JNull = Inr prompt"
      and "llm rt (length (oracle_calls w)) prompt = LLMContent (Some other_code)"
      and "map_of (files w) ''wanted.json'' \<noteq> Some Directory"
  shows "create_dynamic_function ex rt w (JString ''wanted'') (JString ''What is wanted'')
           (JObject []) host_provided =
         (''Successfully created/updated JS dynamic function: wanted'',
          w\<lparr>oracle_calls := oracle_calls w @ [prompt],
            files := AList.update ''wanted.json'' (File (record_text (funcData_record (JString ''wanted'')
               (JString ''What is wanted'') (JString ''{}'') (JString other_code)))) (files w)\<rparr>)
       \<and> store_predefined_function_js rt w
           (JObject [(''name'', JString ''wanted''), (''description'', JString ''What is wanted''),
                     (''parameters_schema_json'', JString ''{}''),
                     (''code_string'', JString other_code)]) =
         (Returns ''Successfully stored predefined JS function: wanted'',
          w\<lparr>files := AList.update ''wanted.json'' (File (record_text (funcData_record (JString ''wanted'')
               (JString ''What is wanted'') (JString ''{}'') (JString other_code)))) (files w)\<rparr>)"
proof -
  have body: "attempt_body ex rt (JString ''wanted'') (JString ''What is wanted'') (JObject [])
      host_provided 0 initial_attempt_state w =
    (True, \<lparr>generated_code_string = JString other_code, last_error = None,
            sanitized_code = other_code\<rparr>,
     w\<lparr>oracle_calls := oracle_calls w @ [prompt]\<rparr>)"
    using assms(1,3,4,5) sanitize_other_code trim_other_code other_code_nonempty
    by (simp add: attempt_body_def initial_attempt_state_def error_message_argument_def
        js_optional_def Let_def)
  have "0 < MAX_SYNTAX_REPAIR_RETRIES ex + 1" by simp
  from repair_loop_step [OF this body]
  have loop: "repair_loop ex rt (JString ''wanted'') (JString ''What is wanted'') (JObject [])
      host_provided 0 initial_attempt_state w =
    (\<lparr>generated_code_string = JString other_code, last_error = None,
            sanitized_code = other_code\<rparr>,
     w\<lparr>oracle_calls := oracle_calls w @ [prompt]\<rparr>)"
    by simp
  have name_ok: "valid_identifier ''wanted''"
    by (simp add: identifier_start_def identifier_part_def)
  have schema: "JSON_stringify (JObject []) = Inr (Some ''{}'')"
    by (simp add: JSON_stringify_def json_wrap_def)
  have store: "store_generated rt (w\<lparr>oracle_calls := oracle_calls w @ [prompt]\<rparr>)
      (JString ''wanted'') (JString ''What is wanted'') (JObject []) other_code =
     (''Successfully created/updated JS dynamic function: wanted'',
          w\<lparr>oracle_calls := oracle_calls w @ [prompt],
            files := AList.update ''wanted.json'' (File (record_text (funcData_record (JString ''wanted'')
               (JString ''What is wanted'') (JString ''{}'') (JString other_code)))) (files w)\<rparr>)"
    using assms(6) schema stringify_funcData_record
    by (simp add: store_generated_def write_record_def js_optional_def fs_write)
  have created: "create_dynamic_function ex rt w (JString ''wanted'') (JString ''What is wanted'')
           (JObject []) host_provided =
         (''Successfully created/updated JS dynamic function: wanted'',
          w\<lparr>oracle_calls := oracle_calls w @ [prompt],
            files := AList.update ''wanted.json'' (File (record_text (funcData_record (JString ''wanted'')
               (JString ''What is wanted'') (JString ''{}'') (JString other_code)))) (files w)\<rparr>)"
    using name_ok loop store by (simp add: create_dynamic_function_def)
  have code_truthy: "truthy (JString other_code)"
    by (simp add: other_code_def)
  have predefined: "store_predefined_function_js rt w
           (JObject [(''name'', JString ''wanted''), (''description'', JString ''What is wanted''),
                     (''parameters_schema_json'', JString ''{}''),
                     (''code_string'', JString other_code)]) =
         (Returns ''Successfully stored predefined JS function: wanted'',
          w\<lparr>files := AList.update ''wanted.json'' (File (record_text (funcData_record (JString ''wanted'')
               (JString ''What is wanted'') (JString ''{}'') (JString other_code)))) (files w)\<rparr>)"
    using assms(2,6) name_ok code_truthy stringify_funcData_record
    by (simp add: store_predefined_function_js_def nullish_def write_record_def
        fs_write)
  from created predefined show ?thesis by simp
qed

theorem validation_passes_code_without_the_function_witness:
  "create_dynamic_function DynamicExecutorJS other_runtime empty_world (JString ''wanted'')
     (JString ''What is wanted'') (JObject []) JUndefined =
   (''Successfully created/updated JS dynamic function: wanted'',
    \<lparr>files = [(''wanted.json'', File (record_text (funcData_record (JString ''wanted'')
                 (JString ''What is wanted'') (JString ''{}'') (JString other_code))))],
     oracle_calls = [template (synthesis_preamble ''wanted'' ''What is wanted'' ''{}''
                       ''No host APIs provided.'') @ code_generation_rules ''wanted'']\<rparr>)
   \<and> store_predefined_function_js other_runtime empty_world
       (JObject [(''name'', JString ''wanted''), (''description'', JString ''What is wanted''),
                 (''parameters_schema_json'', JString ''{}''),
                 (''code_string'', JString other_code)]) =
     (Returns ''Successfully stored predefined JS function: wanted'',
      \<lparr>files = [(''wanted.json'', File (record_text (funcData_record (JString ''wanted'')
                 (JString ''What is wanted'') (JString ''{}'') (JString other_code))))],
       oracle_calls = []\<rparr>)"
proof -
  have 1: "vm_compile other_runtime (template (syntax_check_lines other_code ''wanted'')) = None"
    by (simp add: other_runtime_def)
  have 2: "vm_compile other_runtime
             (template (syntax_check_predefined_lines other_code ''wanted'')) = None"
    by (simp add: other_runtime_def)
  have 4: "generateJSFunctionCreationPrompt (JString ''wanted'') (JString ''What is wanted'')
             (JObject []) (JString ''No host APIs provided.'') False (JString []) JNull =
           Inr (template (synthesis_preamble ''wanted'' ''What is wanted'' ''{}''
                  ''No host APIs provided.'') @ code_generation_rules ''wanted'')"
    by (simp add: generateJSFunctionCreationPrompt_def JSON_stringify_2_def json_wrap_def
        render_optional_def js_or_def)
  have 5: "llm other_runtime (length (oracle_calls empty_world))
             (template (synthesis_preamble ''wanted'' ''What is wanted'' ''{}''
                ''No host APIs provided.'') @ code_generation_rules ''wanted'') =
           LLMContent (Some other_code)"
    by (simp add: other_runtime_def)
  have 6: "map_of (files empty_world) ''wanted.json'' \<noteq> Some Directory"
    by (simp add: empty_world_def)
  from validation_passes_code_without_the_function [OF 1 2 default_api_description 4 5 6]
  show ?thesis by (simp add: empty_world_def)
qed

subsection \<open>What the entry point gives its caller\<close>

text \<open>
  C3. The claim is that \<^verbatim>\<open>execute_dynamic_function\<close> always returns a string and
  never lets a fault reach its caller. It does otherwise: with parameters that hold a
  BigInt, and with no parameters at all, the first statement of the method throws
  outside every \<^verbatim>\<open>try\<close>, whatever the function name and the store; and when the
  stored function returns \<^verbatim>\<open>undefined\<close>, so does the method, since
  \<^verbatim>\<open>JSON.stringify(undefined)\<close> is \<^verbatim>\<open>undefined\<close>.
\<close>

theorem dispatcher_raises_and_returns_undefined:
  "execute_dynamic_function ex rt w function_name (JObject [(''n'', JBigInt 1)])
     external_apis_dict_override =
     (Raises ''Do not know how to serialize a BigInt'', w)
   \<and> execute_dynamic_function ex rt w function_name JUndefined external_apis_dict_override =
     (Raises (''Cannot read properties of undefined (reading '' @ [CHR 0x27] @ ''substring''
        @ [CHR 0x27] @ '')''), w)
   \<and> execute_dynamic_function DynamicExecutorJS
       (installed_runtime silent_record (Fulfilled JUndefined))
       (installed_world ''note'' silent_record) ''note''
       (JObject [(''line'', JString ''a line'')]) JNull =
     (Returns JUndefined, installed_world ''note'' silent_record)"
proof -
  have a: "log_params (JObject [(''n'', JBigInt 1)]) = Inl ''Do not know how to serialize a BigInt''"
    by (simp add: log_params_def JSON_stringify_def)
  have b: "log_params JUndefined = Inl (''Cannot read properties of undefined (reading ''
        @ [CHR 0x27] @ ''substring'' @ [CHR 0x27] @ '')'')"
    by (simp add: log_params_def JSON_stringify_def)
  have c: "\<exists>logged. log_params (JObject [(''line'', JString ''a line'')]) = Inr logged"
    by (simp add: log_params_def JSON_stringify_def)
  have compiles: "vm_compile (installed_runtime silent_record (Fulfilled JUndefined)) source = None"
    for source
    by (simp add: installed_runtime_def)
  have runs: "vm_run (installed_runtime silent_record (Fulfilled JUndefined))
             (template (wrapped_code_lines silent_code ''note'')) sb = Fulfilled JUndefined" for sb
    by (simp add: silent_record_def installed_run)
  have d: "run_in_sandbox (installed_runtime silent_record (Fulfilled JUndefined)) ''note''
             (JString silent_code) (JObject [(''line'', JString ''a line'')]) (JObject []) =
           Returns JUndefined"
    by (simp add: run_in_sandbox_def compiles runs coerce_result_def JSON_stringify_def
        js_optional_def)
  have code: "silent_code \<noteq> []"
    by (simp add: silent_code_def)
  have e: "execute_dynamic_function DynamicExecutorJS
       (installed_runtime silent_record (Fulfilled JUndefined))
       (installed_world ''note'' silent_record) ''note''
       (JObject [(''line'', JString ''a line'')]) JNull =
     (Returns JUndefined, installed_world ''note'' silent_record)"
    using c d code
    by (auto simp: execute_dynamic_function_def FUNCTION_CREATION_TOOL_NAME_def
        silent_record_def installed_definition external_apis_argument_def
        DynamicExecutorJS_def nullish_def)
  from a b e show ?thesis
    by (simp add: execute_dynamic_function_def)
qed

theorem dispatcher_raises_and_returns_undefined_witness:
  "execute_dynamic_function DynamicExecutorJS sample_runtime sample_world ''greet''
     (JObject [(''n'', JBigInt 1)]) JNull =
     (Raises ''Do not know how to serialize a BigInt'', sample_world)
   \<and> execute_dynamic_function DynamicExecutorJS sample_runtime sample_world ''greet''
       JUndefined JNull =
     (Raises (''Cannot read properties of undefined (reading '' @ [CHR 0x27] @ ''substring''
        @ [CHR 0x27] @ '')''), sample_world)"
  using dispatcher_raises_and_returns_undefined
    [of DynamicExecutorJS sample_runtime sample_world "''greet''" JNull]
  by simp

subsection \<open>Storing and fetching\<close>

text \<open>
  C7. Storing a definition and fetching it by name gives back its fields. The definition
  has an identifier for a name, a description, code, and a schema that is JSON data; its
  place in the directory is not taken by a directory. Then the schema serializes, the
  store step of \<^verbatim>\<open>create_dynamic_function\<close> succeeds, and
  \<^verbatim>\<open>get_function_definition_js\<close> returns a record whose name, description, schema
  and code are the stored ones: \<^verbatim>\<open>JSON.parse\<close> reads back the text of the record and
  the text of the schema that \<^verbatim>\<open>JSON.stringify\<close> wrote.
\<close>

theorem stored_definition_round_trips:
  assumes "valid_identifier name"
      and "map_of (files w) (name @ ''.json'') \<noteq> Some Directory"
      and "json_data schema"
  shows "\<exists>w' schema_json.
           JSON_stringify schema = Inr (Some schema_json)
         \<and> store_generated rt w (JString name) (JString description) schema code =
             (''Successfully created/updated JS dynamic function: '' @ name, w')
         \<and> read_prop (get_function_definition_js rt w' name) ''name'' = JString name
         \<and> read_prop (get_function_definition_js rt w' name) ''description'' = JString description
         \<and> read_prop (get_function_definition_js rt w' name) ''parameters_schema'' = schema
         \<and> read_prop (get_function_definition_js rt w' name) ''parameters_schema_json'' =
             JString schema_json
         \<and> read_prop (get_function_definition_js rt w' name) ''code_string'' = JString code
         \<and> read_prop (get_function_definition_js rt w' name) ''is_internal_special_function'' =
             JBool False"
proof -
  from reference_reads_stringify [OF assms(3)] obtain schema_json where
    schema_json: "JSON_stringify schema = Inr (Some schema_json)"
    and schema_read: "JSON_reference schema_json = Some schema"
    by blast
  let ?data = "funcData_record (JString name) (JString description) (JString schema_json)
             (JString code)"
  let ?w' = "w\<lparr>files := AList.update (name @ ''.json'') (File (record_text ?data)) (files w)\<rparr>"
  have plain: "CHR ''/'' \<notin> set name"
    by (rule identifier_no_slash [OF assms(1)])
  have put: "store_generated rt w (JString name) (JString description) schema code =
           (''Successfully created/updated JS dynamic function: '' @ name, ?w')"
    using assms(2) schema_json stringify_funcData_record [of name description schema_json code]
    by (simp add: store_generated_def write_record_def js_optional_def fs_write)
  have parse_record: "JSON_parse rt (record_text ?data) = Inr ?data"
    by (simp add: JSON_parse_def reads_funcData_record)
  have parse_schema: "JSON_parse rt schema_json = Inr schema"
    by (simp add: JSON_parse_def schema_read)
  have get: "get_function_definition_js rt ?w' name =
      JObject [(''name'', JString name), (''description'', JString description),
        (''parameters_schema_json'', JString schema_json), (''code_string'', JString code),
        (''is_internal_special_function'', JBool False), (''parameters_schema'', schema)]"
    using parse_record parse_schema
    by (simp add: get_function_definition_js_def fs_read_written [OF plain] get_prop_def
        nullish_def)
       (simp add: funcData_record_def)
  show ?thesis
    using schema_json put get by simp
qed

theorem stored_definition_round_trips_witness:
  "\<exists>w' schema_json.
       JSON_stringify repeat_schema = Inr (Some schema_json)
     \<and> store_generated sample_runtime empty_world (JString ''repeat'')
           (JString ''Repeats a text'') repeat_schema repeat_code =
           (''Successfully created/updated JS dynamic function: repeat'', w')
     \<and> read_prop (get_function_definition_js sample_runtime w' ''repeat'') ''name'' =
         JString ''repeat''
     \<and> read_prop (get_function_definition_js sample_runtime w' ''repeat'')
         ''description'' = JString ''Repeats a text''
     \<and> read_prop (get_function_definition_js sample_runtime w' ''repeat'')
         ''parameters_schema'' = repeat_schema
     \<and> read_prop (get_function_definition_js sample_runtime w' ''repeat'')
         ''code_string'' = JString repeat_code"
proof -
  have 1: "valid_identifier ''repeat''"
    by (simp add: identifier_start_def identifier_part_def)
  have 2: "map_of (files empty_world) (''repeat'' @ ''.json'') \<noteq> Some Directory"
    by (simp add: empty_world_def)
  have 3: "json_data repeat_schema"
    by (simp add: repeat_schema_def plain_keys_def digit_key_def digit_def)
  from stored_definition_round_trips [OF 1 2 3, of sample_runtime "''Repeats a text''" repeat_code]
  show ?thesis by (elim exE conjE, intro exI conjI) simp_all
qed

text \<open>
  C10. When the record file of a function name exists but cannot be read, or its
  content is not JSON, \<^verbatim>\<open>get_function_definition_js\<close> returns \<^verbatim>\<open>null\<close>, and
  invoking the name ends as it does when the file is absent: with the not-found
  message, once the parameters have passed the first statement of the method.
\<close>

theorem unreadable_record_is_not_found:
  assumes "unreadable_record rt w function_name"
      and "function_name \<noteq> FUNCTION_CREATION_TOOL_NAME"
  shows "get_function_definition_js rt w function_name = JNull
       \<and> execute_dynamic_function ex rt w function_name params_for_function
           external_apis_dict_override =
         ((case log_params params_for_function of
             Inl e \<Rightarrow> Raises e
           | Inr logged \<Rightarrow> Returns (JString (not_found_message function_name))), w)
       \<and> fst (execute_dynamic_function ex rt
                (w\<lparr>files := AList.delete (function_name @ ''.json'') (files w)\<rparr>)
                function_name params_for_function external_apis_dict_override) =
         fst (execute_dynamic_function ex rt w function_name params_for_function
                external_apis_dict_override)"
proof -
  let ?p = "path_join (FUNCTION_CODE_DIR rt) (function_name @ ''.json'')"
  let ?fs' = "AList.delete (function_name @ ''.json'') (files w)"
  have null: "get_function_definition_js rt w function_name = JNull"
    using assms(1)
    by (auto simp: unreadable_record_def get_function_definition_js_def fs_existsSync_def
        fs_readFileSync_def split: option.splits node.splits sum.splits)
  have "node_at rt ?fs' ?p = None \<or> node_at rt ?fs' ?p = node_at rt (files w) ?p"
    by (simp add: node_at_def delete_conv')
  then have absent: "get_function_definition_js rt (w\<lparr>files := ?fs'\<rparr>) function_name = JNull"
  proof
    assume "node_at rt ?fs' ?p = None"
    then show ?thesis
      by (simp add: get_function_definition_js_def fs_existsSync_def)
  next
    assume "node_at rt ?fs' ?p = node_at rt (files w) ?p"
    with assms(1) show ?thesis
      by (auto simp: unreadable_record_def get_function_definition_js_def fs_existsSync_def
          fs_readFileSync_def split: option.splits node.splits sum.splits)
  qed
  show ?thesis
    using assms(2) null absent
    by (simp add: execute_dynamic_function_def split: sum.splits)
qed

theorem unreadable_record_is_not_found_witness:
  "get_function_definition_js sample_runtime broken_world ''greet'' = JNull
   \<and> execute_dynamic_function DynamicExecutorJS sample_runtime broken_world
       ''greet'' (JObject []) JNull =
     (Returns (JString (''Error: JS Function '' @ [CHR 0x27] @ ''greet'' @ [CHR 0x27]
        @ '' not found or has no code.'')), broken_world)
   \<and> fst (execute_dynamic_function DynamicExecutorJS sample_runtime empty_world
       ''greet'' (JObject []) JNull) =
     Returns (JString (''Error: JS Function '' @ [CHR 0x27] @ ''greet'' @ [CHR 0x27]
        @ '' not found or has no code.''))"
proof -
  have entry: "node_at sample_runtime (files broken_world)
      (path_join (FUNCTION_CODE_DIR sample_runtime) (''greet'' @ ''.json'')) =
      map_of (files broken_world) (''greet'' @ ''.json'')"
    by (rule node_at_entry) simp
  have \<open>JSON_reference ''{ "name": "gre'' = None\<close>
    by (simp add: JSON_reference_def skip_ws_def json_ws_def cons_char_def)
  then have 1: "unreadable_record sample_runtime broken_world ''greet''"
    unfolding unreadable_record_def entry
    by (simp add: broken_world_def JSON_parse_def sample_runtime_rejects)
  have 2: "''greet'' \<noteq> FUNCTION_CREATION_TOOL_NAME"
    by (simp add: FUNCTION_CREATION_TOOL_NAME_def)
  have 3: "log_params (JObject []) = Inr ''{}''"
    by (simp add: log_params_def JSON_stringify_def json_wrap_def substring0_def)
  have 4: "broken_world\<lparr>files := AList.delete (''greet'' @ ''.json'') (files broken_world)\<rparr> =
           empty_world"
    by (simp add: broken_world_def empty_world_def)
  from unreadable_record_is_not_found [OF 1 2, of DynamicExecutorJS "JObject []" JNull] 3 4
  show ?thesis
    by (simp add: not_found_message_def)
qed

subsection \<open>The records in the store\<close>

lemma endsWith_append: "endsWith (s @ p) p"
  by (simp add: endsWith_def)

lemma set_update_subset: "set (AList.update k v al) \<subseteq> insert (k, v) (set al)"
  by (induction al) auto

lemma set_delete_subset: "set (AList.delete k al) \<subseteq> set al"
  by (auto simp: AList.delete_eq)

lemma write_record_invariant:
  assumes "store_invariant w"
      and "write_record rt w (js_to_string n @ ''.json'') (funcData_record n d sj c) = Inr w'"
  shows "store_invariant w'"
proof -
  from assms(2) obtain written where
    written: "JSON_stringify_2 (funcData_record n d sj c) = Inr (Some written)"
    and w': "w' = w\<lparr>files := AList.update (js_to_string n @ ''.json'') (File written)
                              (files w)\<rparr>"
    by (auto simp: write_record_def fs_writeFileSync_def
        split: sum.splits option.splits node.splits)
  have new: "record_file (js_to_string n @ ''.json'', File written)"
    using written by (auto simp: record_file_def)
  have "list_all record_file (AList.update (js_to_string n @ ''.json'') (File written) (files w))"
    using assms(1) new
      set_update_subset [of "js_to_string n @ ''.json''" "File written" "files w"]
    by (auto simp: store_invariant_def list_all_iff)
  with assms(1) w' show ?thesis
    by (simp add: store_invariant_def distinct_update)
qed

lemma store_generated_invariant:
  assumes "store_invariant w" and "store_generated rt w n d sc code = (message, w')"
  shows "store_invariant w'"
  using assms write_record_invariant [of w rt n]
  by (auto simp: store_generated_def split: sum.splits)

lemma create_dynamic_function_invariant:
  assumes "store_invariant w"
      and "create_dynamic_function ex rt w n d sc hp = (message, w')"
  shows "store_invariant w'"
proof -
  obtain s1 w1 where loop: "repair_loop ex rt n d sc hp 0 initial_attempt_state w = (s1, w1)"
    by (cases "repair_loop ex rt n d sc hp 0 initial_attempt_state w") auto
  from repair_loop_world [OF loop] have "files w1 = files w" by simp
  with assms(1) have inv1: "store_invariant w1"
    by (simp add: store_invariant_def)
  from assms loop inv1 show ?thesis
    by (auto simp: create_dynamic_function_def store_generated_invariant
        split: if_splits option.splits)
qed

lemma store_predefined_invariant:
  assumes "store_invariant w"
      and "store_predefined_function_js rt w funcData = (result, w')"
  shows "store_invariant w'"
  using assms write_record_invariant [of w rt]
  by (auto simp: store_predefined_function_js_def Let_def
      split: if_splits option.splits sum.splits)

lemma execute_invariant:
  assumes "store_invariant w"
      and "execute_dynamic_function ex rt w function_name params override = (outcome, w')"
  shows "store_invariant w'"
  using assms create_dynamic_function_invariant [of w ex rt]
  by (auto simp: execute_dynamic_function_def execute_creation_tool_def Let_def
      split: if_splits sum.splits list.splits prod.splits)

lemma unlink_json_files_all:
  assumes "distinct names"
      and "\<forall>n \<in> set names. endsWith n ''.json'' \<and> (\<exists>text. map_of fs n = Some (File text))"
  shows "fst ` set (unlink_json_files rt names fs) = fst ` set fs - set names"
  using assms
proof (induction names arbitrary: fs)
  case Nil
  then show ?case by simp
next
  case (Cons n names)
  from Cons.prems obtain content where
    here: "endsWith n ''.json''" "map_of fs n = Some (File content)"
    by auto
  have step: "unlink_json_files rt (n # names) fs = unlink_json_files rt names (AList.delete n fs)"
    using here by (simp add: fs_unlinkSync_def)
  have "\<forall>m \<in> set names. endsWith m ''.json''
          \<and> (\<exists>text. map_of (AList.delete n fs) m = Some (File text))"
    using Cons.prems by (auto simp: delete_conv')
  with Cons.IH [of "AList.delete n fs"] Cons.prems(1)
  have "fst ` set (unlink_json_files rt names (AList.delete n fs)) =
          fst ` set (AList.delete n fs) - set names"
    by simp
  also have "fst ` set (AList.delete n fs) = fst ` set fs - {n}"
    by (auto simp: AList.delete_eq image_iff)
  finally show ?case
    using step by auto
qed

lemma clear_empties_store:
  assumes "store_invariant w"
  shows "files (clear_function_store_js rt w) = []"
proof -
  have "\<forall>n \<in> set (map fst (files w)).
          endsWith n ''.json'' \<and> (\<exists>text. map_of (files w) n = Some (File text))"
  proof
    fix n assume "n \<in> set (map fst (files w))"
    then obtain v where v: "(n, v) \<in> set (files w)" by auto
    with assms have "record_file (n, v)"
      by (auto simp: store_invariant_def list_all_iff)
    moreover from assms v have "map_of (files w) n = Some v"
      by (simp add: store_invariant_def)
    ultimately show "endsWith n ''.json'' \<and> (\<exists>text. map_of (files w) n = Some (File text))"
      by (auto simp: record_file_def endsWith_append)
  qed
  with assms have "fst ` set (unlink_json_files rt (map fst (files w)) (files w)) = {}"
    by (simp add: unlink_json_files_all store_invariant_def)
  then show ?thesis
    by (simp add: clear_function_store_js_def fs_readdirSync_def)
qed

lemma reachable_invariant: "reachable rt w \<Longrightarrow> store_invariant w"
proof (induction rule: reachable.induct)
  case initial
  show ?case by (simp add: store_invariant_def)
next
  case (created w ex name description schema host_provided message w')
  then show ?case by (auto intro: create_dynamic_function_invariant)
next
  case (predefined w funcData result w')
  then show ?case by (auto intro: store_predefined_invariant)
next
  case (executed w ex function_name params override outcome w')
  then show ?case by (auto intro: execute_invariant)
next
  case (cleared w)
  from cleared.IH have "files (clear_function_store_js rt w) = []"
    by (rule clear_empties_store)
  then show ?case by (simp add: store_invariant_def)
qed

text \<open>
  C9. In every store that the methods of the class produce from an empty directory,
  each entry is a record file whose content is the serialization of an object with
  \<^verbatim>\<open>is_internal_special_function\<close> \<^verbatim>\<open>false\<close>, as both
  \<^verbatim>\<open>create_dynamic_function\<close> and \<^verbatim>\<open>store_predefined_function_js\<close> write it; and
  \<^verbatim>\<open>clear_function_store_js\<close>, which unlinks every entry whose name ends in
  \<^verbatim>\<open>.json\<close> and looks at no field of any record, leaves the directory empty.
\<close>

theorem written_records_are_not_internal_and_clear_removes_them:
  assumes "reachable rt w"
  shows "list_all record_file (files w)
       \<and> read_prop (funcData_record name description parameters_schema_json code_string)
           ''is_internal_special_function'' = JBool False
       \<and> files (clear_function_store_js rt w) = []"
  using reachable_invariant [OF assms] clear_empties_store [of w rt]
  by (simp add: store_invariant_def funcData_record_def)

theorem written_records_are_not_internal_and_clear_removes_them_witness:
  "reachable sample_runtime sample_world
   \<and> record_file (''greet.json'', File sample_text)
   \<and> files (clear_function_store_js sample_runtime sample_world) = []"
proof -
  have name_ok: "valid_identifier ''greet''"
    by (simp add: identifier_start_def identifier_part_def)
  have code_ok: "truthy (JString sample_code)"
    by (simp add: sample_code_def)
  have compiles: "\<And>source. vm_compile sample_runtime source = None"
    by (rule sample_runtime_compiles)
  have stored: "store_predefined_function_js sample_runtime
      \<lparr>files = [], oracle_calls = []\<rparr>
      (JObject [(''name'', JString ''greet''), (''description'', JString ''Says hello''),
                (''parameters_schema_json'', JString ''{}''),
                (''code_string'', JString sample_code)]) =
    (Returns ''Successfully stored predefined JS function: greet'', sample_world)"
    using name_ok code_ok compiles
      stringify_funcData_record [of "''greet''" "''Says hello''" "''{}''" sample_code]
    by (simp add: store_predefined_function_js_def nullish_def write_record_def
        fs_writeFileSync_def sample_world_eq sample_text_def sample_record_eq)
  have r: "reachable sample_runtime sample_world"
    by (rule reachable.predefined [OF reachable.initial stored])
  from written_records_are_not_internal_and_clear_removes_them [OF r] r
  show ?thesis by (simp add: sample_world_eq)
qed

subsection \<open>Requests with an invalid name\<close>





end
